theory Spec2Isabelle
  imports Complex_Main
begin

section \<open>Numbers of the simulation\<close>

text \<open>
  The particle arrays of \<open>Physics\<close> hold JavaScript numbers. The model computes with
  exact reals: rounding to single precision on a store into a \<open>Float32Array\<close> and
  overflow are left out. What it keeps is the one way the arithmetic of \<open>Physics\<close>
  leaves the reals: a quotient by zero. Such a quotient is an infinity in the source. The
  divisors of \<open>Physics\<close> that can be zero are \<open>dist\<close> in \<open>1 / dist\<close>, \<open>speed\<close> in
  \<open>maxV / speed\<close> (with a negative \<open>maxVelocity\<close>) and \<open>softDist * softDist\<close> (with a
  \<open>minDistance\<close> that is not positive, at distance zero). The first two quotients are
  only ever multiplied by the components of the vector whose length is the divisor, which
  are all zero when the divisor is, and zero times infinity is \<open>NaN\<close>; the third only
  enters products that already contain the first. So every stored number is a real or
  \<open>NaN\<close>, and the model gives \<open>NaN\<close> to the quotient by zero itself. \<open>NaN\<close> is
  absorbing for the arithmetic and every comparison with it is false.
\<close>

datatype num = Num real | NaN

fun nadd :: "num \<Rightarrow> num \<Rightarrow> num" where
  "nadd (Num a) (Num b) = Num (a + b)"
| "nadd _ _ = NaN"

fun nsub :: "num \<Rightarrow> num \<Rightarrow> num" where
  "nsub (Num a) (Num b) = Num (a - b)"
| "nsub _ _ = NaN"

fun nmul :: "num \<Rightarrow> num \<Rightarrow> num" where
  "nmul (Num a) (Num b) = Num (a * b)"
| "nmul _ _ = NaN"

fun ndiv :: "num \<Rightarrow> num \<Rightarrow> num" where
  "ndiv (Num a) (Num b) = (if b = 0 then NaN else Num (a / b))"
| "ndiv _ _ = NaN"

fun nsqrt :: "num \<Rightarrow> num" where
  "nsqrt (Num a) = (if a < 0 then NaN else Num (sqrt a))"
| "nsqrt NaN = NaN"

fun nmax :: "num \<Rightarrow> num \<Rightarrow> num" where
  "nmax (Num a) (Num b) = Num (max a b)"
| "nmax _ _ = NaN"

fun nlt :: "num \<Rightarrow> num \<Rightarrow> bool" where
  "nlt (Num a) (Num b) = (a < b)"
| "nlt _ _ = False"

definition ngt :: "num \<Rightarrow> num \<Rightarrow> bool" where
  "ngt a b = nlt b a"

section \<open>State of the engine\<close>

text \<open>
  The source keeps positions and velocities in flat arrays of \<open>3 * count\<close> numbers and
  masses and lifetimes in arrays of \<open>count\<close> numbers, all allocated by the constructor
  and never reassigned. Particle \<open>i\<close> owns the slots \<open>3i, 3i+1, 3i+2\<close>; the model
  groups them into one record per particle, in index order, and \<open>count\<close> is the length
  of the list. Lifetimes and masses are only ever assigned reals.
\<close>

record particle =
  px :: num
  py :: num
  pz :: num
  vx :: num
  vy :: num
  vz :: num
  mass :: real
  lifetime :: real

record physics =
  particles :: "particle list"
  G :: real
  drag :: real
  maxVelocity :: real
  minDistance :: real
  fieldRadius :: real
  chaosMode :: bool
  chaosFactor :: real
  attractMode :: bool

definition count :: "physics \<Rightarrow> nat" where
  "count s = length (particles s)"

text \<open>The arguments of \<open>update\<close>: well descriptors, hand velocities, path points.\<close>

record gravity_well =
  well_x :: real
  well_y :: real
  well_z :: real
  well_strength :: real

record hand_velocity =
  hand_vx :: real
  hand_vy :: real

record path_point =
  point_x :: real
  point_y :: real
  point_time :: real

text \<open>A well after the conversion to world space, as \<open>update\<close> builds it.\<close>

record well =
  wx :: real
  wy :: real
  wz :: real
  wstrength :: real
  wvx :: real
  wvy :: real

section \<open>Randomness and the clock\<close>

text \<open>
  \<open>Math.random()\<close> is a stream \<open>rnd\<close> of reals together with the number \<open>k\<close> of
  draws made so far: the next draw is \<open>rnd k\<close>. Every function that draws returns the
  new number of draws. \<open>Date.now()\<close> is read once per particle inside \<open>update\<close>; the
  model takes the reading for particle \<open>i\<close> as \<open>clock i\<close>.
\<close>

type_synonym random = "nat \<Rightarrow> real"

section \<open>Construction\<close>

definition initParticle :: "random \<Rightarrow> nat \<Rightarrow> particle" where
  "initParticle rnd k =
     (let angle = rnd k * pi * 2;
          radius = rnd (k + 1) * 1.5;
          driftSpeed = 0.001
      in \<lparr> px = Num (cos angle * radius),
           py = Num (sin angle * radius * 0.8),
           pz = Num 0,
           vx = Num ((rnd (k + 2) - 0.5) * driftSpeed),
           vy = Num ((rnd (k + 3) - 0.5) * driftSpeed),
           vz = Num ((rnd (k + 4) - 0.5) * 0.0002),
           mass = 0.5 + rnd (k + 5) * 0.5,
           lifetime = rnd (k + 6) \<rparr>)"

primrec init_loop :: "random \<Rightarrow> nat \<Rightarrow> nat \<Rightarrow> particle list" where
  "init_loop rnd k 0 = []"
| "init_loop rnd k (Suc n) = initParticle rnd k # init_loop rnd (k + 7) n"

definition initParticles :: "random \<Rightarrow> physics \<times> nat \<Rightarrow> physics \<times> nat" where
  "initParticles rnd sk =
     (case sk of (s, k) \<Rightarrow>
        (s\<lparr>particles := init_loop rnd k (count s)\<rparr>, k + 7 * count s))"

definition constructor :: "random \<Rightarrow> nat \<Rightarrow> nat \<Rightarrow> physics \<times> nat" where
  "constructor rnd k particleCount =
     (\<lparr> particles = init_loop rnd k particleCount,
        G = 0.00015,
        drag = 0.995,
        maxVelocity = 0.08,
        minDistance = 0.05,
        fieldRadius = 2.5,
        chaosMode = False,
        chaosFactor = 1.0,
        attractMode = True \<rparr>, k + 7 * particleCount)"

section \<open>The frame update\<close>

subsection \<open>Wells\<close>

definition effective_G :: "physics \<Rightarrow> real" where
  "effective_G s = G s * (if chaosMode s then chaosFactor s * 2 else 1)"

text \<open>
  \<open>handVelocities[idx]?.vx || 0\<close>: an index past the end of the array gives zero.
\<close>

definition hand_vx_at :: "hand_velocity list \<Rightarrow> nat \<Rightarrow> real" where
  "hand_vx_at hvs idx = (if idx < length hvs then hand_vx (hvs ! idx) else 0)"

definition hand_vy_at :: "hand_velocity list \<Rightarrow> nat \<Rightarrow> real" where
  "hand_vy_at hvs idx = (if idx < length hvs then hand_vy (hvs ! idx) else 0)"

definition to_world :: "hand_velocity list \<Rightarrow> nat \<Rightarrow> gravity_well \<Rightarrow> well" where
  "to_world hvs idx w =
     \<lparr> wx = well_x w * 1.5,
       wy = well_y w * 1.2,
       wz = well_z w * 0.5,
       wstrength = well_strength w,
       wvx = hand_vx_at hvs idx,
       wvy = hand_vy_at hvs idx \<rparr>"

fun wells_from :: "hand_velocity list \<Rightarrow> nat \<Rightarrow> gravity_well list \<Rightarrow> well list" where
  "wells_from hvs idx [] = []"
| "wells_from hvs idx (w # ws) = to_world hvs idx w # wells_from hvs (Suc idx) ws"

definition world_wells :: "gravity_well list \<Rightarrow> hand_velocity list \<Rightarrow> well list" where
  "world_wells gravityWells handVelocities = wells_from handVelocities 0 gravityWells"

definition mergedWell :: "well list \<Rightarrow> well option" where
  "mergedWell wells =
     (case wells of
        [w0, w1] \<Rightarrow>
          (let dx = wx w0 - wx w1;
               dy = wy w0 - wy w1;
               dist = sqrt (dx * dx + dy * dy)
           in if dist < 0.5 then
                (let mergeFactor = 1 - (dist / 0.5)
                 in Some \<lparr> wx = (wx w0 + wx w1) / 2,
                           wy = (wy w0 + wy w1) / 2,
                           wz = (wz w0 + wz w1) / 2,
                           wstrength = (wstrength w0 + wstrength w1) * (1 + mergeFactor * 0.5),
                           wvx = (wvx w0 + wvx w1) / 2,
                           wvy = (wvy w0 + wvy w1) / 2 \<rparr>)
              else None)
      | _ \<Rightarrow> None)"

definition effectiveWells :: "well list \<Rightarrow> well list" where
  "effectiveWells wells = (case mergedWell wells of Some m \<Rightarrow> [m] | None \<Rightarrow> wells)"

subsection \<open>Acceleration of one particle\<close>

type_synonym accel = "num \<times> num \<times> num"

definition well_accel :: "physics \<Rightarrow> particle \<Rightarrow> well \<Rightarrow> accel \<Rightarrow> accel" where
  "well_accel s p w acc =
     (case acc of (ax, ay, az) \<Rightarrow>
        (let dx = nsub (Num (wx w)) (px p);
             dy = nsub (Num (wy w)) (py p);
             dz = nsub (Num (wz w)) (pz p);
             distSq = nadd (nadd (nmul dx dx) (nmul dy dy)) (nmul dz dz);
             dist = nsqrt distSq
         in if nlt dist (Num (fieldRadius s)) then
              (let softDist = nmax dist (Num (minDistance s));
                   force = ndiv (Num (effective_G s * wstrength w)) (nmul softDist softDist);
                   invDist = ndiv (Num 1) dist;
                   direction = Num (if attractMode s then 1 else - 1);
                   ax1 = nadd ax (nmul (nmul (nmul dx invDist) force) direction);
                   ay1 = nadd ay (nmul (nmul (nmul dy invDist) force) direction);
                   az1 = nadd az (nmul (nmul (nmul dz invDist) force) direction);
                   handSpeed = sqrt (wvx w * wvx w + wvy w * wvy w)
               in if handSpeed > 0.01 \<and> nlt dist (Num 0.5) then
                    (let slingshotForce =
                           nmul (Num (handSpeed * 0.5)) (nsub (Num 1) (ndiv dist (Num 0.5)))
                     in (nadd ax1 (nmul (Num (wvx w)) slingshotForce),
                         nadd ay1 (nmul (Num (wvy w)) slingshotForce),
                         az1))
                  else (ax1, ay1, az1))
            else (ax, ay, az)))"

definition path_accel :: "real \<Rightarrow> particle \<Rightarrow> path_point \<Rightarrow> accel \<Rightarrow> accel" where
  "path_accel now p point acc =
     (case acc of (ax, ay, az) \<Rightarrow>
        (let age = (now - point_time point) / 8000
         in if age < 1 then
              (let strength = (1 - age) * 0.0005;
                   dx = nsub (Num (point_x point)) (px p);
                   dy = nsub (Num (point_y point)) (py p);
                   dist = nsqrt (nadd (nmul dx dx) (nmul dy dy))
               in if nlt dist (Num 0.6) \<and> ngt dist (Num 0.01) then
                    (let force = ndiv (Num strength) (nadd dist (Num 0.03))
                     in (nadd ax (nmul (ndiv dx dist) force),
                         nadd ay (nmul (ndiv dy dist) force),
                         az))
                  else (ax, ay, az))
            else (ax, ay, az)))"

definition chaos_accel :: "physics \<Rightarrow> random \<Rightarrow> nat \<Rightarrow> accel \<Rightarrow> accel \<times> nat" where
  "chaos_accel s rnd k acc =
     (case acc of (ax, ay, az) \<Rightarrow>
        if chaosMode s then
          ((nadd ax (Num ((rnd k - 0.5) * 0.0002)),
            nadd ay (Num ((rnd (k + 1) - 0.5) * 0.0002)),
            az), k + 2)
        else ((ax, ay, az), k))"

definition acceleration ::
  "physics \<Rightarrow> random \<Rightarrow> nat \<Rightarrow> well list \<Rightarrow> real \<Rightarrow> path_point list \<Rightarrow> particle \<Rightarrow> accel \<times> nat"
where
  "acceleration s rnd k wells now pathForces p =
     (let a1 = fold (well_accel s p) (effectiveWells wells) (Num 0, Num 0, Num 0);
          a2 = fold (path_accel now p) pathForces a1
      in chaos_accel s rnd k a2)"

subsection \<open>Integration, clamp, respawn, lifetime\<close>

text \<open>
  The source stores each new velocity and position component into a \<open>Float32Array\<close>,
  which rounds it to single precision; the model keeps the exact real. Every fact below
  about a component after a call is a fact of this exact arithmetic: it describes the
  source up to the rounding of that one store. No fact below gives a velocity or a position
  after more than one call, where the roundings would accumulate (a stored velocity of the
  smallest single-precision magnitude, for one, is not reduced by the drag at all).
\<close>

definition integrate_velocity :: "physics \<Rightarrow> real \<Rightarrow> accel \<Rightarrow> particle \<Rightarrow> particle" where
  "integrate_velocity s dt acc p =
     (case acc of (ax, ay, az) \<Rightarrow>
        p\<lparr> vx := nmul (nadd (vx p) (nmul ax (Num dt))) (Num (drag s)),
           vy := nmul (nadd (vy p) (nmul ay (Num dt))) (Num (drag s)),
           vz := nmul (nadd (vz p) (nmul az (Num dt))) (Num (drag s)) \<rparr>)"

definition speed :: "particle \<Rightarrow> num" where
  "speed p =
     nsqrt (nadd (nadd (nmul (vx p) (vx p)) (nmul (vy p) (vy p))) (nmul (vz p) (vz p)))"

definition clamp_velocity :: "physics \<Rightarrow> particle \<Rightarrow> particle" where
  "clamp_velocity s p =
     (if ngt (speed p) (Num (maxVelocity s)) then
        (let scale = ndiv (Num (maxVelocity s)) (speed p)
         in p\<lparr> vx := nmul (vx p) scale,
               vy := nmul (vy p) scale,
               vz := nmul (vz p) scale \<rparr>)
      else p)"

definition integrate_position :: "real \<Rightarrow> particle \<Rightarrow> particle" where
  "integrate_position dt p =
     p\<lparr> px := nadd (px p) (nmul (vx p) (Num dt)),
        py := nadd (py p) (nmul (vy p) (Num dt)),
        pz := nadd (pz p) (nmul (vz p) (Num dt)) \<rparr>"

definition escaped :: "particle \<Rightarrow> bool" where
  "escaped p = ngt (nadd (nmul (px p) (px p)) (nmul (py p) (py p))) (Num 16)"

definition respawnParticle :: "random \<Rightarrow> nat \<Rightarrow> particle \<Rightarrow> particle \<times> nat" where
  "respawnParticle rnd k p =
     (let angle = rnd k * pi * 2;
          radius = 0.1 + rnd (k + 1) * 0.3
      in (p\<lparr> px := Num (cos angle * radius),
             py := Num (sin angle * radius),
             pz := Num ((rnd (k + 2) - 0.5) * 0.1),
             vx := Num ((rnd (k + 3) - 0.5) * 0.01),
             vy := Num ((rnd (k + 4) - 0.5) * 0.01),
             vz := Num 0,
             lifetime := 0 \<rparr>, k + 5))"

definition advance_lifetime :: "particle \<Rightarrow> particle" where
  "advance_lifetime p = p\<lparr> lifetime := min 1 (lifetime p + 0.001) \<rparr>"

text \<open>
  The particle after the position update of the loop body, before the boundary check,
  with the number of draws made so far.
\<close>

definition moved ::
  "physics \<Rightarrow> random \<Rightarrow> nat \<Rightarrow> well list \<Rightarrow> real \<Rightarrow> real \<Rightarrow> path_point list \<Rightarrow> particle
     \<Rightarrow> particle \<times> nat"
where
  "moved s rnd k wells now dt pathForces p =
     (case acceleration s rnd k wells now pathForces p of
        (acc, k1) \<Rightarrow>
          (integrate_position dt (clamp_velocity s (integrate_velocity s dt acc p)), k1))"

definition update_particle ::
  "physics \<Rightarrow> random \<Rightarrow> nat \<Rightarrow> well list \<Rightarrow> real \<Rightarrow> real \<Rightarrow> path_point list \<Rightarrow> particle
     \<Rightarrow> particle \<times> nat"
where
  "update_particle s rnd k wells now dt pathForces p =
     (case moved s rnd k wells now dt pathForces p of
        (p1, k1) \<Rightarrow>
          (case (if escaped p1 then respawnParticle rnd k1 p1 else (p1, k1)) of
             (p2, k2) \<Rightarrow> (advance_lifetime p2, k2)))"

fun update_loop ::
  "physics \<Rightarrow> random \<Rightarrow> (nat \<Rightarrow> real) \<Rightarrow> well list \<Rightarrow> real \<Rightarrow> path_point list
     \<Rightarrow> nat \<Rightarrow> nat \<Rightarrow> particle list \<Rightarrow> particle list \<times> nat"
where
  "update_loop s rnd clock wells dt pathForces i k [] = ([], k)"
| "update_loop s rnd clock wells dt pathForces i k (p # ps) =
     (case update_particle s rnd k wells (clock i) dt pathForces p of
        (p', k1) \<Rightarrow>
          (case update_loop s rnd clock wells dt pathForces (Suc i) k1 ps of
             (ps', k2) \<Rightarrow> (p' # ps', k2)))"

definition update ::
  "random \<Rightarrow> (nat \<Rightarrow> real) \<Rightarrow> gravity_well list \<Rightarrow> hand_velocity list \<Rightarrow> real
     \<Rightarrow> path_point list \<Rightarrow> physics \<times> nat \<Rightarrow> physics \<times> nat"
where
  "update rnd clock gravityWells handVelocities dt pathForces sk =
     (case sk of (s, k) \<Rightarrow>
        (case update_loop s rnd clock (world_wells gravityWells handVelocities) dt pathForces
                0 k (particles s) of
           (ps, k') \<Rightarrow> (s\<lparr>particles := ps\<rparr>, k')))"

text \<open>
  The number of draws made when the loop of \<open>update\<close> reaches particle \<open>i\<close>.
\<close>

definition draws_before ::
  "physics \<Rightarrow> random \<Rightarrow> (nat \<Rightarrow> real) \<Rightarrow> well list \<Rightarrow> real \<Rightarrow> path_point list
     \<Rightarrow> nat \<Rightarrow> nat \<Rightarrow> nat"
where
  "draws_before s rnd clock wells dt pathForces k i =
     snd (update_loop s rnd clock wells dt pathForces 0 k (take i (particles s)))"

text \<open>
  What the loop body of \<open>update\<close> does with the acceleration of a particle and the
  number of draws made so far: velocity and position integration, clamp, boundary check
  with respawn, lifetime step. It is the body of \<open>update_particle\<close> after the
  acceleration, as one function (lemma \<open>update_particle_finish\<close> below).
\<close>

definition finish_particle ::
  "physics \<Rightarrow> random \<Rightarrow> real \<Rightarrow> accel \<times> nat \<Rightarrow> particle \<Rightarrow> particle"
where
  "finish_particle s rnd dt ak p =
     (case ak of (acc, k1) \<Rightarrow>
        (let p1 = integrate_position dt (clamp_velocity s (integrate_velocity s dt acc p))
         in advance_lifetime (if escaped p1 then fst (respawnParticle rnd k1 p1) else p1)))"

section \<open>Chaos mode and impulses\<close>

definition toggleChaosMode :: "physics \<Rightarrow> physics" where
  "toggleChaosMode s =
     (let c = \<not> chaosMode s
      in s\<lparr> chaosMode := c, chaosFactor := (if c then 3 else 1) \<rparr>)"

definition explode_particle :: "real \<Rightarrow> real \<Rightarrow> real \<Rightarrow> particle \<Rightarrow> particle" where
  "explode_particle x y strength p =
     (let worldX = x * 1.5;
          worldY = y * 1.2;
          explosionForce = 0.08 * strength;
          explosionRadius = 1.5;
          dx = nsub (px p) (Num worldX);
          dy = nsub (py p) (Num worldY);
          dist = nsqrt (nadd (nmul dx dx) (nmul dy dy))
      in if nlt dist (Num explosionRadius) \<and> ngt dist (Num 0.01) then
           (let force = nmul (Num explosionForce) (nsub (Num 1) (ndiv dist (Num explosionRadius)));
                invDist = ndiv (Num 1) dist
            in p\<lparr> vx := nadd (vx p) (nmul (nmul dx invDist) force),
                  vy := nadd (vy p) (nmul (nmul dy invDist) force) \<rparr>)
         else p)"

definition applyExplosion :: "real \<Rightarrow> real \<Rightarrow> real \<Rightarrow> physics \<Rightarrow> physics" where
  "applyExplosion x y strength s =
     s\<lparr>particles := map (explode_particle x y strength) (particles s)\<rparr>"

definition implode_particle :: "real \<Rightarrow> real \<Rightarrow> real \<Rightarrow> particle \<Rightarrow> particle" where
  "implode_particle x y strength p =
     (let worldX = x * 1.5;
          worldY = y * 1.2;
          implosionForce = 0.06 * strength;
          implosionRadius = 2.0;
          dx = nsub (Num worldX) (px p);
          dy = nsub (Num worldY) (py p);
          dist = nsqrt (nadd (nmul dx dx) (nmul dy dy))
      in if nlt dist (Num implosionRadius) \<and> ngt dist (Num 0.01) then
           (let force = nmul (Num implosionForce) (nsub (Num 1) (ndiv dist (Num implosionRadius)));
                invDist = ndiv (Num 1) dist
            in p\<lparr> vx := nadd (vx p) (nmul (nmul dx invDist) force),
                  vy := nadd (vy p) (nmul (nmul dy invDist) force) \<rparr>)
         else p)"

definition applyImplosion :: "real \<Rightarrow> real \<Rightarrow> real \<Rightarrow> physics \<Rightarrow> physics" where
  "applyImplosion x y strength s =
     s\<lparr>particles := map (implode_particle x y strength) (particles s)\<rparr>"

definition getSpeeds :: "physics \<Rightarrow> num list" where
  "getSpeeds s = map speed (particles s)"

section \<open>Sequences of calls\<close>

datatype call =
    Update "nat \<Rightarrow> real" "gravity_well list" "hand_velocity list" real "path_point list"
  | Explosion real real real
  | Implosion real real real
  | ToggleChaos
  | InitParticles

fun do_call :: "random \<Rightarrow> call \<Rightarrow> physics \<times> nat \<Rightarrow> physics \<times> nat" where
  "do_call rnd (Update clock ws hvs dt pts) sk = update rnd clock ws hvs dt pts sk"
| "do_call rnd (Explosion x y strength) (s, k) = (applyExplosion x y strength s, k)"
| "do_call rnd (Implosion x y strength) (s, k) = (applyImplosion x y strength s, k)"
| "do_call rnd ToggleChaos (s, k) = (toggleChaosMode s, k)"
| "do_call rnd InitParticles sk = initParticles rnd sk"

fun run :: "random \<Rightarrow> call list \<Rightarrow> physics \<times> nat \<Rightarrow> physics \<times> nat" where
  "run rnd [] sk = sk"
| "run rnd (c # cs) sk = run rnd cs (do_call rnd c sk)"

section \<open>Example states\<close>

text \<open>
  A state with the constants the constructor sets, a well descriptor and a particle with
  real components, for the concrete instances below.
\<close>

definition default_physics :: "particle list \<Rightarrow> physics" where
  "default_physics ps = \<lparr> particles = ps, G = 0.00015, drag = 0.995, maxVelocity = 0.08,
     minDistance = 0.05, fieldRadius = 2.5, chaosMode = False, chaosFactor = 1.0, attractMode = True \<rparr>"

definition well_at :: "real \<Rightarrow> real \<Rightarrow> real \<Rightarrow> real \<Rightarrow> gravity_well" where
  "well_at x y z strength = \<lparr> well_x = x, well_y = y, well_z = z, well_strength = strength \<rparr>"

definition particle_at :: "real \<Rightarrow> real \<Rightarrow> real \<Rightarrow> real \<Rightarrow> real \<Rightarrow> real \<Rightarrow> particle" where
  "particle_at x y z u v w = \<lparr> px = Num x, py = Num y, pz = Num z, vx = Num u, vy = Num v, vz = Num w,
      mass = 0.5, lifetime = 0 \<rparr>"

lemmas update_defs = update_def world_wells_def to_world_def hand_vx_at_def hand_vy_at_def
      update_particle_def moved_def acceleration_def effectiveWells_def mergedWell_def
      well_accel_def path_accel_def chaos_accel_def integrate_velocity_def clamp_velocity_def
      speed_def integrate_position_def escaped_def advance_lifetime_def ngt_def
      effective_G_def respawnParticle_def Let_def

text \<open>
  A state whose only particle is about to cross the boundary \<open>x\<^sup>2 + y\<^sup>2 = 16\<close>.
\<close>

definition edge_physics :: physics where
  "edge_physics = default_physics [particle_at 3.9995 0 0 0.001 0 0]"

text \<open>
  A stream of draws that is zero except for the draw that decides the \<open>y\<close> velocity of
  the first respawn, and a state whose only particle is close to the end of its lifetime
  scale.
\<close>

definition edge_rnd :: random where
  "edge_rnd = (\<lambda>n. if n = 4 then 1 / 2 else 0)"

definition old_physics :: physics where
  "old_physics = default_physics [(particle_at 0 0 0 0 0 0)\<lparr>lifetime := 0.9995\<rparr>]"

text \<open>A state whose only particle drifts slowly from the origin along the \<open>x\<close> axis.\<close>

definition drift_physics :: physics where
  "drift_physics = default_physics [particle_at 0 0 0 0.01 0 0]"

text \<open>
  A state with chaos mode switched on by \<open>toggleChaosMode\<close>, a state whose only particle
  rests at \<open>(1, 0, 0)\<close>, and a stream of draws that puts a respawned particle near the
  outer edge of the respawn region.
\<close>

definition chaos_physics :: physics where
  "chaos_physics = toggleChaosMode (default_physics [particle_at 1 0 0 0 0 0])"

definition axis_physics :: physics where
  "axis_physics = default_physics [particle_at 1 0 0 0 0 0]"

definition far_rnd :: random where
  "far_rnd = (\<lambda>n. if n = 1 \<or> n = 2 then 0.999 else 0)"

text \<open>The lifetime invariant of the data model: every lifetime lies in \<open>[0, 1]\<close>.\<close>

definition lifetimes_ok :: "physics \<Rightarrow> bool" where
  "lifetimes_ok s = list_all (\<lambda>p. 0 \<le> lifetime p \<and> lifetime p \<le> 1) (particles s)"

section \<open>Facts about the loop and the arithmetic\<close>

lemma update_loop_fst_Cons:
  "fst (update_loop s rnd clock wells dt pts i k (p # ps)) =
     fst (update_particle s rnd k wells (clock i) dt pts p) #
     fst (update_loop s rnd clock wells dt pts (Suc i)
            (snd (update_particle s rnd k wells (clock i) dt pts p)) ps)"
  by (simp split: prod.splits)

lemma update_loop_snd_Cons:
  "snd (update_loop s rnd clock wells dt pts i k (p # ps)) =
     snd (update_loop s rnd clock wells dt pts (Suc i)
            (snd (update_particle s rnd k wells (clock i) dt pts p)) ps)"
  by (simp split: prod.splits)

lemma update_loop_length:
  "length (fst (update_loop s rnd clock wells dt pts i k ps)) = length ps"
proof (induction ps arbitrary: i k)
  case Nil
  show ?case by simp
next
  case (Cons p ps)
  show ?case by (simp only: update_loop_fst_Cons list.size Cons.IH)
qed

lemma update_loop_nth:
  "i < length ps \<Longrightarrow>
   fst (update_loop s rnd clock wells dt pts i0 k ps) ! i =
   fst (update_particle s rnd (snd (update_loop s rnd clock wells dt pts i0 k (take i ps)))
          wells (clock (i0 + i)) dt pts (ps ! i))"
proof (induction ps arbitrary: i i0 k)
  case Nil
  then show ?case by simp
next
  case (Cons p ps)
  show ?case
  proof (cases i)
    case 0
    then show ?thesis by (simp only: update_loop_fst_Cons) simp
  next
    case (Suc j)
    with Cons.prems have j: "j < length ps" by simp
    show ?thesis unfolding Suc
      by (simp only: update_loop_fst_Cons update_loop_snd_Cons take_Suc_Cons nth_Cons_Suc
            Cons.IH [OF j] add_Suc_right add_Suc)
  qed
qed

lemma nsqrt_sum2:
  "nsqrt (nadd (nmul (Num u) (Num u)) (nmul (Num v) (Num v))) = Num (sqrt (u\<^sup>2 + v\<^sup>2))"
proof -
  have "\<not> u * u + v * v < 0" by (simp add: not_less)
  then show ?thesis by (simp add: power2_eq_square)
qed

lemma nsqrt_sum3:
  "nsqrt (nadd (nadd (nmul (Num u) (Num u)) (nmul (Num v) (Num v))) (nmul (Num w) (Num w)))
     = Num (sqrt (u\<^sup>2 + v\<^sup>2 + w\<^sup>2))"
proof -
  have "0 \<le> u * u + v * v + w * w" by simp
  then have "\<not> u * u + v * v + w * w < 0" by (simp only: not_less)
  then show ?thesis by (simp add: power2_eq_square)
qed

lemma explode_particle_num:
  assumes "px p = Num a" "py p = Num b"
  shows "explode_particle x y st p =
     (let d = sqrt ((a - x * 1.5)\<^sup>2 + (b - y * 1.2)\<^sup>2)
      in if d < 1.5 \<and> 0.01 < d then
           p\<lparr> vx := nadd (vx p) (Num ((a - x * 1.5) / d * (0.08 * st * (1 - d / 1.5)))),
              vy := nadd (vy p) (Num ((b - y * 1.2) / d * (0.08 * st * (1 - d / 1.5)))) \<rparr>
         else p)"
proof -
  define d where "d = sqrt ((a - x * 1.5)\<^sup>2 + (b - y * 1.2)\<^sup>2)"
  have dist: "nsqrt (nadd (nmul (nsub (px p) (Num (x * 1.5))) (nsub (px p) (Num (x * 1.5))))
                 (nmul (nsub (py p) (Num (y * 1.2))) (nsub (py p) (Num (y * 1.2))))) = Num d"
    unfolding assms nsub.simps nsqrt_sum2 d_def by simp
  show ?thesis
    unfolding explode_particle_def Let_def dist d_def [symmetric]
    by (auto simp add: assms ngt_def)
qed

lemma implode_particle_num:
  assumes "px p = Num a" "py p = Num b"
  shows "implode_particle x y st p =
     (let d = sqrt ((x * 1.5 - a)\<^sup>2 + (y * 1.2 - b)\<^sup>2)
      in if d < 2 \<and> 0.01 < d then
           p\<lparr> vx := nadd (vx p) (Num ((x * 1.5 - a) / d * (0.06 * st * (1 - d / 2)))),
              vy := nadd (vy p) (Num ((y * 1.2 - b) / d * (0.06 * st * (1 - d / 2)))) \<rparr>
         else p)"
proof -
  define d where "d = sqrt ((x * 1.5 - a)\<^sup>2 + (y * 1.2 - b)\<^sup>2)"
  have dist: "nsqrt (nadd (nmul (nsub (Num (x * 1.5)) (px p)) (nsub (Num (x * 1.5)) (px p)))
                 (nmul (nsub (Num (y * 1.2)) (py p)) (nsub (Num (y * 1.2)) (py p)))) = Num d"
    unfolding assms nsub.simps nsqrt_sum2 d_def by simp
  show ?thesis
    unfolding implode_particle_def Let_def dist d_def [symmetric]
    by (auto simp add: assms ngt_def)
qed

lemma speed_Num:
  "vx p = Num a \<Longrightarrow> vy p = Num b \<Longrightarrow> vz p = Num c \<Longrightarrow>
   speed p = Num (sqrt (a\<^sup>2 + b\<^sup>2 + c\<^sup>2))"
  by (simp only: speed_def nsqrt_sum3)

lemma speed_NumE:
  assumes "speed p = Num v"
  obtains a b c where "vx p = Num a" "vy p = Num b" "vz p = Num c"
    "v = sqrt (a\<^sup>2 + b\<^sup>2 + c\<^sup>2)"
proof (cases "vx p")
  case NaN
  with assms show ?thesis by (simp add: speed_def)
next
  case a: (Num a)
  show ?thesis
  proof (cases "vy p")
    case NaN
    with assms a show ?thesis by (simp add: speed_def)
  next
    case b: (Num b)
    show ?thesis
    proof (cases "vz p")
      case NaN
      with assms a b show ?thesis by (simp add: speed_def)
    next
      case c: (Num c)
      from assms speed_Num [OF a b c] have "v = sqrt (a\<^sup>2 + b\<^sup>2 + c\<^sup>2)" by simp
      with a b c that show ?thesis by blast
    qed
  qed
qed

lemma sqrt_scaled3:
  "sqrt ((a * k)\<^sup>2 + (b * k)\<^sup>2 + (c * k)\<^sup>2) = \<bar>k\<bar> * sqrt (a\<^sup>2 + b\<^sup>2 + c\<^sup>2)"
proof -
  have "(a * k)\<^sup>2 + (b * k)\<^sup>2 + (c * k)\<^sup>2 = k\<^sup>2 * (a\<^sup>2 + b\<^sup>2 + c\<^sup>2)"
    by (simp add: power_mult_distrib distrib_left mult.commute)
  then show ?thesis by (simp add: real_sqrt_mult)
qed

lemma clamp_velocity_speed:
  assumes m: "0 \<le> maxVelocity s" and v: "speed p = Num v"
  shows "speed (clamp_velocity s p) = Num (min v (maxVelocity s))"
proof -
  from v obtain a b c where abc: "vx p = Num a" "vy p = Num b" "vz p = Num c"
    and vdef: "v = sqrt (a\<^sup>2 + b\<^sup>2 + c\<^sup>2)"
    by (rule speed_NumE)
  show ?thesis
  proof (cases "maxVelocity s < v")
    case False
    then show ?thesis using v by (simp add: clamp_velocity_def ngt_def min_def)
  next
    case True
    with m have vpos: "0 < v" by simp
    let ?k = "maxVelocity s / v"
    have k: "\<bar>?k\<bar> * v = maxVelocity s" using vpos m by simp
    have q: "clamp_velocity s p = p\<lparr> vx := Num (a * ?k), vy := Num (b * ?k), vz := Num (c * ?k) \<rparr>"
      using True vpos v abc by (simp add: clamp_velocity_def ngt_def Let_def)
    have "speed (clamp_velocity s p) = Num (sqrt ((a * ?k)\<^sup>2 + (b * ?k)\<^sup>2 + (c * ?k)\<^sup>2))"
      unfolding q by (rule speed_Num) simp_all
    also have "\<dots> = Num (maxVelocity s)"
      by (simp only: sqrt_scaled3 vdef [symmetric] k)
    finally show ?thesis using True by (simp add: min_def)
  qed
qed

lemma clamp_velocity_unchanged:
  "speed p = Num v \<Longrightarrow> v \<le> maxVelocity s \<Longrightarrow> clamp_velocity s p = p"
  by (simp add: clamp_velocity_def ngt_def)

lemma clamp_velocity_NaN:
  "speed p = NaN \<Longrightarrow> clamp_velocity s p = p"
  by (simp add: clamp_velocity_def ngt_def)

lemma speed_integrate_position [simp]: "speed (integrate_position dt p) = speed p"
  by (simp add: speed_def integrate_position_def)

lemma speed_advance_lifetime [simp]: "speed (advance_lifetime p) = speed p"
  by (simp add: speed_def advance_lifetime_def)

lemma quiet_acceleration:
  "\<not> chaosMode s \<Longrightarrow> acceleration s rnd k [] now [] p = ((Num 0, Num 0, Num 0), k)"
  by (simp add: acceleration_def effectiveWells_def mergedWell_def chaos_accel_def)

lemma quiet_integrate_velocity:
  "vx p = Num a \<Longrightarrow> vy p = Num b \<Longrightarrow> vz p = Num c \<Longrightarrow>
   integrate_velocity s dt (Num 0, Num 0, Num 0) p =
     p\<lparr> vx := Num (a * drag s), vy := Num (b * drag s), vz := Num (c * drag s) \<rparr>"
  by (simp add: integrate_velocity_def)

lemma quiet_integrate_speed:
  assumes "speed p = Num v"
  shows "speed (integrate_velocity s dt (Num 0, Num 0, Num 0) p) = Num (\<bar>drag s\<bar> * v)"
proof -
  from assms obtain a b c where abc: "vx p = Num a" "vy p = Num b" "vz p = Num c"
    and vdef: "v = sqrt (a\<^sup>2 + b\<^sup>2 + c\<^sup>2)"
    by (rule speed_NumE)
  have "speed (integrate_velocity s dt (Num 0, Num 0, Num 0) p)
      = Num (sqrt ((a * drag s)\<^sup>2 + (b * drag s)\<^sup>2 + (c * drag s)\<^sup>2))"
    unfolding quiet_integrate_velocity [OF abc] by (rule speed_Num) simp_all
  then show ?thesis by (simp only: sqrt_scaled3 vdef [symmetric])
qed

lemma quiet_moved:
  "\<not> chaosMode s \<Longrightarrow>
   moved s rnd k [] now dt [] p =
     (integrate_position dt (clamp_velocity s (integrate_velocity s dt (Num 0, Num 0, Num 0) p)), k)"
  by (simp add: moved_def quiet_acceleration)

lemma quiet_moved_speed:
  assumes "\<not> chaosMode s" "0 \<le> maxVelocity s" "speed p = Num v"
  shows "speed (fst (moved s rnd k [] now dt [] p)) = Num (min (\<bar>drag s\<bar> * v) (maxVelocity s))"
  by (simp add: quiet_moved [OF assms(1)]
        clamp_velocity_speed [OF assms(2) quiet_integrate_speed [OF assms(3)]])

section \<open>Facts about one particle of the loop\<close>

lemma update_particles_nth:
  assumes "i < count s"
  shows "particles (fst (update rnd clock ws hvs dt pts (s, k))) ! i =
     fst (update_particle s rnd (draws_before s rnd clock (world_wells ws hvs) dt pts k i)
            (world_wells ws hvs) (clock i) dt pts (particles s ! i))"
proof -
  have "particles (fst (update rnd clock ws hvs dt pts (s, k))) =
        fst (update_loop s rnd clock (world_wells ws hvs) dt pts 0 k (particles s))"
    by (simp add: update_def split: prod.splits)
  then show ?thesis
    using update_loop_nth [of i "particles s" s rnd clock "world_wells ws hvs" dt pts 0 k] assms
    by (simp add: draws_before_def count_def)
qed

lemma count_update [simp]: "count (fst (update rnd clock ws hvs dt pts (s, k))) = count s"
proof -
  have "particles (fst (update rnd clock ws hvs dt pts (s, k))) =
        fst (update_loop s rnd clock (world_wells ws hvs) dt pts 0 k (particles s))"
    by (simp add: update_def split: prod.splits)
  then show ?thesis by (simp add: count_def update_loop_length)
qed

lemma update_constants [simp]:
  "G (fst (update rnd clock ws hvs dt pts (s, k))) = G s"
  "drag (fst (update rnd clock ws hvs dt pts (s, k))) = drag s"
  "maxVelocity (fst (update rnd clock ws hvs dt pts (s, k))) = maxVelocity s"
  "minDistance (fst (update rnd clock ws hvs dt pts (s, k))) = minDistance s"
  "fieldRadius (fst (update rnd clock ws hvs dt pts (s, k))) = fieldRadius s"
  "chaosMode (fst (update rnd clock ws hvs dt pts (s, k))) = chaosMode s"
  "chaosFactor (fst (update rnd clock ws hvs dt pts (s, k))) = chaosFactor s"
  "attractMode (fst (update rnd clock ws hvs dt pts (s, k))) = attractMode s"
  by (simp_all add: update_def split: prod.splits)

lemma update_particle_escaped:
  assumes "escaped (fst (moved s rnd k wells now dt pts p))"
  shows "fst (update_particle s rnd k wells now dt pts p) =
     advance_lifetime (fst (respawnParticle rnd (snd (moved s rnd k wells now dt pts p))
                              (fst (moved s rnd k wells now dt pts p))))"
  using assms by (cases "moved s rnd k wells now dt pts p") (simp add: update_particle_def split: prod.splits)

lemma update_particle_inside:
  assumes "\<not> escaped (fst (moved s rnd k wells now dt pts p))"
  shows "fst (update_particle s rnd k wells now dt pts p) =
     advance_lifetime (fst (moved s rnd k wells now dt pts p))"
  using assms by (cases "moved s rnd k wells now dt pts p") (simp add: update_particle_def split: prod.splits)

lemma escaped_Num:
  "px p = Num a \<Longrightarrow> py p = Num b \<Longrightarrow> escaped p = (a\<^sup>2 + b\<^sup>2 > 16)"
  by (simp add: escaped_def ngt_def power2_eq_square)

lemma respawn_in_disc:
  fixes r t :: real
  assumes "0 \<le> r" "r < 1"
  shows "(cos t * (0.1 + r * 0.3))\<^sup>2 + (sin t * (0.1 + r * 0.3))\<^sup>2 < 0.4\<^sup>2
       \<and> 0.1\<^sup>2 \<le> (cos t * (0.1 + r * 0.3))\<^sup>2 + (sin t * (0.1 + r * 0.3))\<^sup>2"
proof -
  define R where "R = 0.1 + r * 0.3"
  have "(cos t * R)\<^sup>2 + (sin t * R)\<^sup>2 = ((cos t)\<^sup>2 + (sin t)\<^sup>2) * R\<^sup>2"
    by (simp only: power_mult_distrib distrib_right)
  also have "\<dots> = R\<^sup>2" by (simp only: sin_cos_squared_add2 mult_1)
  finally have eq: "(cos t * R)\<^sup>2 + (sin t * R)\<^sup>2 = R\<^sup>2" .
  have R: "0.1 \<le> R" "R < 0.4" "0 \<le> R" using assms by (simp_all add: R_def)
  have "R\<^sup>2 < 0.4\<^sup>2" using R(2,3) by (rule power_strict_mono) simp
  moreover have "0.1\<^sup>2 \<le> R\<^sup>2" using R(1) by (rule power_mono) simp
  ultimately show ?thesis unfolding R_def [symmetric] eq by simp
qed

lemma centred_draw:
  fixes r c :: real
  assumes "0 \<le> r" "r < 1" "0 \<le> c"
  shows "\<bar>(r - 0.5) * c\<bar> \<le> 0.5 * c"
proof -
  have "\<bar>r - 0.5\<bar> \<le> 0.5" using assms(1,2) by (simp only: abs_le_iff) simp
  then have "\<bar>r - 0.5\<bar> * c \<le> 0.5 * c" using assms(3) by (rule mult_right_mono)
  then show ?thesis using assms(3) by (simp only: abs_mult abs_of_nonneg)
qed

lemma speed_axis:
  "vx p = Num a \<Longrightarrow> vy p = Num 0 \<Longrightarrow> vz p = Num 0 \<Longrightarrow> speed p = Num \<bar>a\<bar>"
  using speed_Num [of p a 0 0] by simp

lemma edge_moved:
  "fst (moved edge_physics rnd k [] now 1 [] (particle_at 3.9995 0 0 0.001 0 0)) =
     particle_at 4.000495 0 0 0.000995 0 0"
proof -
  let ?p = "particle_at 3.9995 0 0 0.001 0 0"
  let ?q = "integrate_velocity edge_physics 1 (Num 0, Num 0, Num 0) ?p"
  have q: "?q = particle_at 3.9995 0 0 0.000995 0 0"
    by (simp add: integrate_velocity_def particle_at_def edge_physics_def default_physics_def)
  have "speed ?q = Num \<bar>0.000995\<bar>"
    unfolding q by (rule speed_axis) (simp_all add: particle_at_def)
  then have cl: "clamp_velocity edge_physics ?q = ?q"
    by (rule clamp_velocity_unchanged) (simp add: edge_physics_def default_physics_def)
  have c: "\<not> chaosMode edge_physics"
    by (simp add: edge_physics_def default_physics_def)
  have "fst (moved edge_physics rnd k [] now 1 [] ?p) =
        integrate_position 1 (clamp_velocity edge_physics ?q)"
    by (simp only: quiet_moved [OF c] fst_conv)
  also have "\<dots> = integrate_position 1 ?q"
    by (simp only: cl)
  also have "\<dots> = integrate_position 1 (particle_at 3.9995 0 0 0.000995 0 0)"
    by (simp only: q)
  also have "\<dots> = particle_at 4.000495 0 0 0.000995 0 0"
    by (simp add: integrate_position_def particle_at_def)
  finally show ?thesis .
qed

section \<open>Facts about lifetimes, impulses and the population\<close>

lemma moved_lifetime [simp]: "lifetime (fst (moved s rnd k wells now dt pts p)) = lifetime p"
  by (simp add: moved_def integrate_position_def clamp_velocity_def integrate_velocity_def Let_def
        split: prod.splits)

lemma moved_mass [simp]: "mass (fst (moved s rnd k wells now dt pts p)) = mass p"
  by (simp add: moved_def integrate_position_def clamp_velocity_def integrate_velocity_def Let_def
        split: prod.splits)

lemma update_particle_lifetime:
  "lifetime (fst (update_particle s rnd k wells now dt pts p)) =
     (if escaped (fst (moved s rnd k wells now dt pts p)) then 0.001
      else min 1 (lifetime p + 0.001))"
proof (cases "escaped (fst (moved s rnd k wells now dt pts p))")
  case True
  then show ?thesis
    by (simp add: update_particle_escaped respawnParticle_def advance_lifetime_def Let_def)
next
  case False
  then show ?thesis
    by (simp add: update_particle_inside advance_lifetime_def)
qed

lemma update_particle_lifetime_ok:
  assumes "0 \<le> lifetime p" "lifetime p \<le> 1"
  shows "0 \<le> lifetime (fst (update_particle s rnd k wells now dt pts p))
       \<and> lifetime (fst (update_particle s rnd k wells now dt pts p)) \<le> 1"
  using assms by (simp add: update_particle_lifetime)

lemma update_loop_lifetimes:
  "list_all (\<lambda>p. 0 \<le> lifetime p \<and> lifetime p \<le> 1) ps \<Longrightarrow>
   list_all (\<lambda>p. 0 \<le> lifetime p \<and> lifetime p \<le> 1)
     (fst (update_loop s rnd clock wells dt pts i k ps))"
proof (induction ps arbitrary: i k)
  case Nil
  show ?case by simp
next
  case (Cons p ps)
  from Cons.prems have p: "0 \<le> lifetime p" "lifetime p \<le> 1"
    and ps: "list_all (\<lambda>p. 0 \<le> lifetime p \<and> lifetime p \<le> 1) ps" by simp_all
  show ?case
    unfolding update_loop_fst_Cons
    using update_particle_lifetime_ok [OF p] Cons.IH [OF ps] by simp
qed

lemma particles_update:
  "particles (fst (update rnd clock ws hvs dt pts (s, k))) =
     fst (update_loop s rnd clock (world_wells ws hvs) dt pts 0 k (particles s))"
  by (simp add: update_def split: prod.splits)

lemma update_lifetimes_ok:
  "lifetimes_ok s \<Longrightarrow> lifetimes_ok (fst (update rnd clock ws hvs dt pts (s, k)))"
  by (simp add: lifetimes_ok_def particles_update update_loop_lifetimes)

lemma explode_particle_frame [simp]:
  "px (explode_particle x y st p) = px p"
  "py (explode_particle x y st p) = py p"
  "pz (explode_particle x y st p) = pz p"
  "vz (explode_particle x y st p) = vz p"
  "mass (explode_particle x y st p) = mass p"
  "lifetime (explode_particle x y st p) = lifetime p"
  by (simp_all add: explode_particle_def Let_def)

lemma implode_particle_frame [simp]:
  "px (implode_particle x y st p) = px p"
  "py (implode_particle x y st p) = py p"
  "pz (implode_particle x y st p) = pz p"
  "vz (implode_particle x y st p) = vz p"
  "mass (implode_particle x y st p) = mass p"
  "lifetime (implode_particle x y st p) = lifetime p"
  by (simp_all add: implode_particle_def Let_def)

lemma impulse_lifetimes_ok:
  "lifetimes_ok s \<Longrightarrow> lifetimes_ok (applyExplosion x y st s)"
  "lifetimes_ok s \<Longrightarrow> lifetimes_ok (applyImplosion x y st s)"
  "lifetimes_ok s \<Longrightarrow> lifetimes_ok (toggleChaosMode s)"
  by (simp_all add: lifetimes_ok_def applyExplosion_def applyImplosion_def toggleChaosMode_def
        list_all_iff Let_def)

lemma init_loop_lifetimes:
  "\<forall>n. 0 \<le> rnd n \<and> rnd n < 1 \<Longrightarrow>
   list_all (\<lambda>p. 0 \<le> lifetime p \<and> lifetime p \<le> 1) (init_loop rnd k n)"
  by (induction n arbitrary: k) (simp_all add: initParticle_def Let_def less_imp_le)

lemma length_init_loop [simp]: "length (init_loop rnd k n) = n"
  by (induction n arbitrary: k) simp_all

lemma do_call_lifetimes_ok:
  assumes "\<forall>n. 0 \<le> rnd n \<and> rnd n < 1" "lifetimes_ok (fst sk)"
  shows "lifetimes_ok (fst (do_call rnd c sk))"
proof (cases sk)
  case (Pair s k)
  with assms(2) have s: "lifetimes_ok s" by simp
  show ?thesis
  proof (cases c)
    case (Update clock ws hvs dt pts)
    then show ?thesis using update_lifetimes_ok [OF s] Pair by simp
  next
    case InitParticles
    then show ?thesis using init_loop_lifetimes [OF assms(1)] Pair
      by (simp add: initParticles_def lifetimes_ok_def)
  qed (simp_all add: Pair impulse_lifetimes_ok [OF s])
qed

lemma run_lifetimes_ok:
  assumes "\<forall>n. 0 \<le> rnd n \<and> rnd n < 1"
  shows "lifetimes_ok (fst sk) \<Longrightarrow> lifetimes_ok (fst (run rnd cs sk))"
proof (induction cs arbitrary: sk)
  case Nil
  then show ?case by simp
next
  case (Cons c cs)
  show ?case using Cons.IH [OF do_call_lifetimes_ok [OF assms Cons.prems]] by simp
qed

lemma count_do_call: "count (fst (do_call rnd c sk)) = count (fst sk)"
proof (cases sk)
  case (Pair s k)
  show ?thesis
  proof (cases c)
    case (Update clock ws hvs dt pts)
    then show ?thesis by (simp add: Pair)
  qed (simp_all add: Pair count_def applyExplosion_def applyImplosion_def toggleChaosMode_def
         initParticles_def Let_def)
qed

lemma count_run: "count (fst (run rnd cs sk)) = count (fst sk)"
  by (induction cs arbitrary: sk) (simp_all add: count_do_call)

lemma edge_escaped:
  "escaped (fst (moved edge_physics rnd k [] now 1 [] (particle_at 3.9995 0 0 0.001 0 0)))"
  unfolding edge_moved by (simp add: escaped_def ngt_def particle_at_def)

lemma quiet_moved_draws:
  "\<not> chaosMode s \<Longrightarrow> snd (moved s rnd k [] now dt [] p) = k"
  by (simp add: quiet_moved)

lemma edge_update:
  "particles (fst (update edge_rnd clock [] [] 1 [] (edge_physics, 0))) =
     [\<lparr> px = Num 0.1, py = Num 0, pz = Num (- 0.05), vx = Num (- 0.005), vy = Num 0, vz = Num 0,
        mass = 0.5, lifetime = 0.001 \<rparr>]"
proof -
  let ?p = "particle_at 3.9995 0 0 0.001 0 0"
  have c: "\<not> chaosMode edge_physics"
    by (simp add: edge_physics_def default_physics_def)
  have ps: "particles edge_physics = [?p]"
    by (simp add: edge_physics_def default_physics_def)
  have "particles (fst (update edge_rnd clock [] [] 1 [] (edge_physics, 0))) =
        [fst (update_particle edge_physics edge_rnd 0 [] (clock 0) 1 [] ?p)]"
    by (simp only: particles_update ps update_loop_fst_Cons world_wells_def wells_from.simps)
       simp
  also have "fst (update_particle edge_physics edge_rnd 0 [] (clock 0) 1 [] ?p) =
      advance_lifetime (fst (respawnParticle edge_rnd 0 (particle_at 4.000495 0 0 0.000995 0 0)))"
    by (simp only: update_particle_escaped [OF edge_escaped] quiet_moved_draws [OF c] edge_moved)
  also have "\<dots> = \<lparr> px = Num 0.1, py = Num 0, pz = Num (- 0.05), vx = Num (- 0.005), vy = Num 0,
        vz = Num 0, mass = 0.5, lifetime = 0.001 \<rparr>"
    by (simp add: respawnParticle_def advance_lifetime_def edge_rnd_def particle_at_def Let_def)
  finally show ?thesis .
qed

lemma edge_update_any:
  "particles (fst (update rnd clock [] [] 1 [] (edge_physics, 0))) =
     [advance_lifetime (fst (respawnParticle rnd 0 (particle_at 4.000495 0 0 0.000995 0 0)))]"
proof -
  let ?p = "particle_at 3.9995 0 0 0.001 0 0"
  have c: "\<not> chaosMode edge_physics"
    by (simp add: edge_physics_def default_physics_def)
  have ps: "particles edge_physics = [?p]"
    by (simp add: edge_physics_def default_physics_def)
  have "particles (fst (update rnd clock [] [] 1 [] (edge_physics, 0))) =
        [fst (update_particle edge_physics rnd 0 [] (clock 0) 1 [] ?p)]"
    by (simp only: particles_update ps update_loop_fst_Cons world_wells_def wells_from.simps)
       simp
  also have "fst (update_particle edge_physics rnd 0 [] (clock 0) 1 [] ?p) =
      advance_lifetime (fst (respawnParticle rnd 0 (particle_at 4.000495 0 0 0.000995 0 0)))"
    by (simp only: update_particle_escaped [OF edge_escaped] quiet_moved_draws [OF c] edge_moved)
  finally show ?thesis .
qed

section \<open>Facts about wells\<close>

lemma well_accel_num:
  assumes p: "px p = Num a" "py p = Num b" "pz p = Num c"
    and d: "d = sqrt ((wx w - a)\<^sup>2 + (wy w - b)\<^sup>2 + (wz w - c)\<^sup>2)"
    and nz: "d \<noteq> 0"
  shows "well_accel s p w (ax, ay, az) =
     (if d < fieldRadius s then
        (let force = effective_G s * wstrength w / (max d (minDistance s) * max d (minDistance s));
             direction = (if attractMode s then 1 else - 1);
             ax1 = nadd ax (Num ((wx w - a) * (1 / d) * force * direction));
             ay1 = nadd ay (Num ((wy w - b) * (1 / d) * force * direction));
             az1 = nadd az (Num ((wz w - c) * (1 / d) * force * direction));
             handSpeed = sqrt (wvx w * wvx w + wvy w * wvy w)
         in if handSpeed > 0.01 \<and> d < 0.5 then
              (nadd ax1 (Num (wvx w * (handSpeed * 0.5 * (1 - d / 0.5)))),
               nadd ay1 (Num (wvy w * (handSpeed * 0.5 * (1 - d / 0.5)))),
               az1)
            else (ax1, ay1, az1))
      else (ax, ay, az))"
proof -
  have dist: "nsqrt (nadd (nadd (nmul (nsub (Num (wx w)) (px p)) (nsub (Num (wx w)) (px p)))
                              (nmul (nsub (Num (wy w)) (py p)) (nsub (Num (wy w)) (py p))))
                        (nmul (nsub (Num (wz w)) (pz p)) (nsub (Num (wz w)) (pz p)))) = Num d"
    unfolding p nsub.simps nsqrt_sum3 d by simp
  have "0 \<le> d" unfolding d by (rule real_sqrt_ge_zero) simp
  with nz have dpos: "0 < d" by simp
  then have m: "max d (minDistance s) \<noteq> 0" by simp
  show ?thesis
    unfolding well_accel_def Let_def dist prod.case
    using nz m by (simp add: p)
qed

lemma well_accel_far:
  assumes p: "px p = Num a" "py p = Num b" "pz p = Num c"
    and far: "fieldRadius s \<le> sqrt ((wx w - a)\<^sup>2 + (wy w - b)\<^sup>2 + (wz w - c)\<^sup>2)"
  shows "well_accel s p w acc = acc"
proof -
  have dist: "nsqrt (nadd (nadd (nmul (nsub (Num (wx w)) (px p)) (nsub (Num (wx w)) (px p)))
                              (nmul (nsub (Num (wy w)) (py p)) (nsub (Num (wy w)) (py p))))
                        (nmul (nsub (Num (wz w)) (pz p)) (nsub (Num (wz w)) (pz p))))
       = Num (sqrt ((wx w - a)\<^sup>2 + (wy w - b)\<^sup>2 + (wz w - c)\<^sup>2))"
    unfolding p nsub.simps nsqrt_sum3 by simp
  show ?thesis
    unfolding well_accel_def Let_def dist
    using far by (cases acc) simp
qed

lemma wells_from_length [simp]: "length (wells_from hvs idx ws) = length ws"
  by (induction ws arbitrary: idx) simp_all

lemma wells_from_nth:
  "j < length ws \<Longrightarrow> wells_from hvs idx ws ! j = to_world hvs (idx + j) (ws ! j)"
proof (induction ws arbitrary: idx j)
  case Nil
  then show ?case by simp
next
  case (Cons w ws)
  show ?case
  proof (cases j)
    case 0
    then show ?thesis by simp
  next
    case (Suc j')
    with Cons.prems have "j' < length ws" by simp
    from Cons.IH [OF this, of "Suc idx"] Suc show ?thesis by simp
  qed
qed

lemma mergedWell_two:
  "mergedWell [w0, w1] =
     (if sqrt ((wx w0 - wx w1)\<^sup>2 + (wy w0 - wy w1)\<^sup>2) < 0.5 then
        Some \<lparr> wx = (wx w0 + wx w1) / 2,
               wy = (wy w0 + wy w1) / 2,
               wz = (wz w0 + wz w1) / 2,
               wstrength = (wstrength w0 + wstrength w1)
                  * (1 + (1 - sqrt ((wx w0 - wx w1)\<^sup>2 + (wy w0 - wy w1)\<^sup>2) / 0.5) * 0.5),
               wvx = (wvx w0 + wvx w1) / 2,
               wvy = (wvy w0 + wvy w1) / 2 \<rparr>
      else None)"
  by (simp add: mergedWell_def Let_def power2_eq_square)

lemma sqrt_values:
  "sqrt (9 / 25) = 3 / 5" "sqrt (49 / 4) = 7 / 2" "sqrt 4 = 2" "sqrt (1 / 4) = 1 / 2"
  "sqrt (9 / 100) = 3 / 10" "sqrt (81 / 400) = 9 / 20"
  by (rule real_sqrt_unique, simp add: power2_eq_square, simp)+

lemma mergedWell_other: "length wells \<noteq> 2 \<Longrightarrow> mergedWell wells = None"
  by (auto simp add: mergedWell_def split: list.splits)

lemma world_wells_map:
  "world_wells ws hvs =
     map (\<lambda>j. \<lparr> wx = well_x (ws ! j) * 1.5, wy = well_y (ws ! j) * 1.2,
                 wz = well_z (ws ! j) * 0.5, wstrength = well_strength (ws ! j),
                 wvx = hand_vx_at hvs j, wvy = hand_vy_at hvs j \<rparr>) [0..<length ws]"
  by (rule nth_equalityI) (simp_all add: world_wells_def wells_from_nth to_world_def)

lemma effective_wells_other:
  assumes "length ws \<noteq> 2"
  shows "effectiveWells (world_wells ws hvs) =
     map (\<lambda>j. \<lparr> wx = well_x (ws ! j) * 1.5, wy = well_y (ws ! j) * 1.2,
                 wz = well_z (ws ! j) * 0.5, wstrength = well_strength (ws ! j),
                 wvx = hand_vx_at hvs j, wvy = hand_vy_at hvs j \<rparr>) [0..<length ws]"
proof -
  have "length (world_wells ws hvs) \<noteq> 2" using assms by (simp add: world_wells_def)
  then have "effectiveWells (world_wells ws hvs) = world_wells ws hvs"
    by (simp add: effectiveWells_def mergedWell_other)
  then show ?thesis by (simp only: world_wells_map)
qed

lemma effective_wells_two:
  "effectiveWells (world_wells [w0, w1] hvs) =
     (if sqrt ((well_x w0 * 1.5 - well_x w1 * 1.5)\<^sup>2 + (well_y w0 * 1.2 - well_y w1 * 1.2)\<^sup>2) < 0.5
      then [\<lparr> wx = (well_x w0 * 1.5 + well_x w1 * 1.5) / 2,
               wy = (well_y w0 * 1.2 + well_y w1 * 1.2) / 2,
               wz = (well_z w0 * 0.5 + well_z w1 * 0.5) / 2,
               wstrength = (well_strength w0 + well_strength w1)
                 * (1 + (1 - sqrt ((well_x w0 * 1.5 - well_x w1 * 1.5)\<^sup>2
                                   + (well_y w0 * 1.2 - well_y w1 * 1.2)\<^sup>2) / 0.5) * 0.5),
               wvx = (hand_vx_at hvs 0 + hand_vx_at hvs 1) / 2,
               wvy = (hand_vy_at hvs 0 + hand_vy_at hvs 1) / 2 \<rparr>]
      else [\<lparr> wx = well_x w0 * 1.5, wy = well_y w0 * 1.2, wz = well_z w0 * 0.5,
               wstrength = well_strength w0, wvx = hand_vx_at hvs 0, wvy = hand_vy_at hvs 0 \<rparr>,
            \<lparr> wx = well_x w1 * 1.5, wy = well_y w1 * 1.2, wz = well_z w1 * 0.5,
               wstrength = well_strength w1, wvx = hand_vx_at hvs 1, wvy = hand_vy_at hvs 1 \<rparr>])"
  by (simp add: effectiveWells_def world_wells_def mergedWell_two to_world_def)

lemma well_accel_cases:
  assumes p: "px p = Num a" "py p = Num b" "pz p = Num c"
    and d: "d = sqrt ((wx w - a)\<^sup>2 + (wy w - b)\<^sup>2 + (wz w - c)\<^sup>2)"
    and nz: "d \<noteq> 0"
  shows "well_accel s p w (ax, ay, az) =
     (if d < fieldRadius s then
        (let force = G s * (if chaosMode s then chaosFactor s * 2 else 1) * wstrength w
                       / (max d (minDistance s) * max d (minDistance s));
             direction = (if attractMode s then 1 else - 1);
             ax1 = nadd ax (Num ((wx w - a) * (1 / d) * force * direction));
             ay1 = nadd ay (Num ((wy w - b) * (1 / d) * force * direction));
             az1 = nadd az (Num ((wz w - c) * (1 / d) * force * direction));
             handSpeed = sqrt (wvx w * wvx w + wvy w * wvy w)
         in if handSpeed > 0.01 \<and> d < 0.5 then
              (nadd ax1 (Num (wvx w * (handSpeed * 0.5 * (1 - d / 0.5)))),
               nadd ay1 (Num (wvy w * (handSpeed * 0.5 * (1 - d / 0.5)))),
               az1)
            else (ax1, ay1, az1))
      else (ax, ay, az))"
  unfolding well_accel_num [OF p d nz] by (simp add: effective_G_def)

section \<open>From a call of update to the acceleration of a particle\<close>

lemma update_particle_finish:
  "fst (update_particle s rnd k wells now dt pts p) =
     finish_particle s rnd dt (acceleration s rnd k wells now pts p) p"
  by (cases "acceleration s rnd k wells now pts p")
     (simp add: update_particle_def moved_def finish_particle_def Let_def split: prod.splits)

lemma update_nth_acceleration:
  assumes "i < count s"
  shows "particles (fst (update rnd clock ws hvs dt pts (s, k))) ! i =
     finish_particle s rnd dt
       (chaos_accel s rnd (draws_before s rnd clock (world_wells ws hvs) dt pts k i)
          (fold (path_accel (clock i) (particles s ! i)) pts
             (fold (well_accel s (particles s ! i)) (effectiveWells (world_wells ws hvs))
                (Num 0, Num 0, Num 0))))
       (particles s ! i)"
  by (simp only: update_particles_nth [OF assms] update_particle_finish acceleration_def Let_def)

lemma moved_draws:
  "snd (moved s rnd k wells now dt pts p) = (if chaosMode s then k + 2 else k)"
  by (simp add: moved_def acceleration_def chaos_accel_def Let_def split: prod.splits)

lemma finish_axis:
  assumes p: "p = \<lparr> px = Num x, py = Num y, pz = Num z, vx = Num u, vy = Num 0, vz = Num 0,
                  mass = ma, lifetime = l \<rparr>"
    and v: "v = (u + a * dt) * drag s"
    and small: "\<bar>v\<bar> \<le> maxVelocity s"
    and inside: "(x + v * dt)\<^sup>2 + y\<^sup>2 \<le> 16"
  shows "finish_particle s rnd dt ((Num a, Num 0, Num 0), k1) p =
           \<lparr> px = Num (x + v * dt), py = Num y, pz = Num z,
             vx = Num v, vy = Num 0, vz = Num 0, mass = ma, lifetime = min 1 (l + 0.001) \<rparr>"
proof -
  let ?q = "integrate_velocity s dt (Num a, Num 0, Num 0) p"
  have qv: "?q = p\<lparr> vx := Num v, vy := Num 0, vz := Num 0 \<rparr>"
    by (simp add: integrate_velocity_def p v)
  have "speed ?q = Num \<bar>v\<bar>"
    unfolding qv by (rule speed_axis) simp_all
  then have cl: "clamp_velocity s ?q = ?q"
    using small by (rule clamp_velocity_unchanged)
  have ip: "integrate_position dt ?q =
      \<lparr> px = Num (x + v * dt), py = Num y, pz = Num z,
        vx = Num v, vy = Num 0, vz = Num 0, mass = ma, lifetime = l \<rparr>"
    unfolding qv by (simp add: integrate_position_def p)
  have ne: "\<not> escaped (integrate_position dt ?q)"
    unfolding ip using inside by (simp add: escaped_def ngt_def power2_eq_square)
  show ?thesis
    unfolding finish_particle_def prod.case Let_def cl
    using ne by (simp add: ip advance_lifetime_def)
qed

lemma update_single_well:
  assumes i: "i < count s"
    and pos: "px (particles s ! i) = Num a" "py (particles s ! i) = Num b"
             "pz (particles s ! i) = Num c"
    and d: "d = sqrt ((well_x w * 1.5 - a)\<^sup>2 + (well_y w * 1.2 - b)\<^sup>2 + (well_z w * 0.5 - c)\<^sup>2)"
    and nz: "d \<noteq> 0"
  shows "particles (fst (update rnd clock [w] hvs dt pts (s, k))) ! i =
     finish_particle s rnd dt
       (chaos_accel s rnd (draws_before s rnd clock (world_wells [w] hvs) dt pts k i)
          (fold (path_accel (clock i) (particles s ! i)) pts
             (if d < fieldRadius s then
                (let force = G s * (if chaosMode s then chaosFactor s * 2 else 1) * well_strength w
                               / (max d (minDistance s) * max d (minDistance s));
                     direction = (if attractMode s then 1 else - 1);
                     fx = (well_x w * 1.5 - a) * (1 / d) * force * direction;
                     fy = (well_y w * 1.2 - b) * (1 / d) * force * direction;
                     fz = (well_z w * 0.5 - c) * (1 / d) * force * direction;
                     handSpeed = sqrt (hand_vx_at hvs 0 * hand_vx_at hvs 0
                                       + hand_vy_at hvs 0 * hand_vy_at hvs 0)
                 in if handSpeed > 0.01 \<and> d < 0.5 then
                      (Num (fx + hand_vx_at hvs 0 * (handSpeed * 0.5 * (1 - d / 0.5))),
                       Num (fy + hand_vy_at hvs 0 * (handSpeed * 0.5 * (1 - d / 0.5))),
                       Num fz)
                    else (Num fx, Num fy, Num fz))
              else (Num 0, Num 0, Num 0))))
       (particles s ! i)"
proof -
  let ?W = "\<lparr> wx = well_x w * 1.5, wy = well_y w * 1.2, wz = well_z w * 0.5,
              wstrength = well_strength w, wvx = hand_vx_at hvs 0, wvy = hand_vy_at hvs 0 \<rparr>"
  have ew: "effectiveWells (world_wells [w] hvs) = [?W]"
    using effective_wells_other [of "[w]" hvs] by simp
  have d': "d = sqrt ((wx ?W - a)\<^sup>2 + (wy ?W - b)\<^sup>2 + (wz ?W - c)\<^sup>2)"
    using d by simp
  show ?thesis
    unfolding update_nth_acceleration [OF i] ew fold_simps well_accel_num [OF pos d' nz]
    by (simp add: Let_def effective_G_def)
qed

lemma update_two_wells:
  assumes i: "i < count s"
  shows "particles (fst (update rnd clock [w0, w1] hvs dt pts (s, k))) ! i =
     finish_particle s rnd dt
       (chaos_accel s rnd (draws_before s rnd clock (world_wells [w0, w1] hvs) dt pts k i)
          (fold (path_accel (clock i) (particles s ! i)) pts
             (fold (well_accel s (particles s ! i))
                (if sqrt ((well_x w0 * 1.5 - well_x w1 * 1.5)\<^sup>2
                          + (well_y w0 * 1.2 - well_y w1 * 1.2)\<^sup>2) < 0.5
                 then [\<lparr> wx = (well_x w0 * 1.5 + well_x w1 * 1.5) / 2,
                          wy = (well_y w0 * 1.2 + well_y w1 * 1.2) / 2,
                          wz = (well_z w0 * 0.5 + well_z w1 * 0.5) / 2,
                          wstrength = (well_strength w0 + well_strength w1)
                            * (1 + (1 - sqrt ((well_x w0 * 1.5 - well_x w1 * 1.5)\<^sup>2
                                              + (well_y w0 * 1.2 - well_y w1 * 1.2)\<^sup>2) / 0.5) * 0.5),
                          wvx = (hand_vx_at hvs 0 + hand_vx_at hvs 1) / 2,
                          wvy = (hand_vy_at hvs 0 + hand_vy_at hvs 1) / 2 \<rparr>]
                 else [\<lparr> wx = well_x w0 * 1.5, wy = well_y w0 * 1.2, wz = well_z w0 * 0.5,
                          wstrength = well_strength w0,
                          wvx = hand_vx_at hvs 0, wvy = hand_vy_at hvs 0 \<rparr>,
                       \<lparr> wx = well_x w1 * 1.5, wy = well_y w1 * 1.2, wz = well_z w1 * 0.5,
                          wstrength = well_strength w1,
                          wvx = hand_vx_at hvs 1, wvy = hand_vy_at hvs 1 \<rparr>])
                (Num 0, Num 0, Num 0))))
       (particles s ! i)"
  by (simp only: update_nth_acceleration [OF i] effective_wells_two)

lemma update_wells_other:
  assumes i: "i < count s" and n: "length ws \<noteq> 2"
  shows "particles (fst (update rnd clock ws hvs dt pts (s, k))) ! i =
     finish_particle s rnd dt
       (chaos_accel s rnd (draws_before s rnd clock (world_wells ws hvs) dt pts k i)
          (fold (path_accel (clock i) (particles s ! i)) pts
             (fold (well_accel s (particles s ! i))
                (map (\<lambda>j. \<lparr> wx = well_x (ws ! j) * 1.5, wy = well_y (ws ! j) * 1.2,
                            wz = well_z (ws ! j) * 0.5, wstrength = well_strength (ws ! j),
                            wvx = hand_vx_at hvs j, wvy = hand_vy_at hvs j \<rparr>) [0..<length ws])
                (Num 0, Num 0, Num 0))))
       (particles s ! i)"
  by (simp only: update_nth_acceleration [OF i] effective_wells_other [OF n])

lemma applyExplosion_nth:
  assumes "i < count s" "px (particles s ! i) = Num a" "py (particles s ! i) = Num b"
  shows "particles (applyExplosion x y st s) ! i =
     (let e = sqrt ((a - x * 1.5)\<^sup>2 + (b - y * 1.2)\<^sup>2)
      in if e < 1.5 \<and> 0.01 < e then
           (particles s ! i)
             \<lparr> vx := nadd (vx (particles s ! i)) (Num ((a - x * 1.5) / e * (0.08 * st * (1 - e / 1.5)))),
               vy := nadd (vy (particles s ! i)) (Num ((b - y * 1.2) / e * (0.08 * st * (1 - e / 1.5)))) \<rparr>
         else particles s ! i)"
  using assms(1) explode_particle_num [OF assms(2,3)]
  by (simp add: applyExplosion_def count_def)

lemma applyImplosion_nth:
  assumes "i < count s" "px (particles s ! i) = Num a" "py (particles s ! i) = Num b"
  shows "particles (applyImplosion x y st s) ! i =
     (let e = sqrt ((x * 1.5 - a)\<^sup>2 + (y * 1.2 - b)\<^sup>2)
      in if e < 2 \<and> 0.01 < e then
           (particles s ! i)
             \<lparr> vx := nadd (vx (particles s ! i)) (Num ((x * 1.5 - a) / e * (0.06 * st * (1 - e / 2)))),
               vy := nadd (vy (particles s ! i)) (Num ((y * 1.2 - b) / e * (0.06 * st * (1 - e / 2)))) \<rparr>
         else particles s ! i)"
  using assms(1) implode_particle_num [OF assms(2,3)]
  by (simp add: applyImplosion_def count_def)

section \<open>Concrete calls\<close>

lemma chaos_physics_fields:
  "particles chaos_physics = [particle_at 1 0 0 0 0 0]" "G chaos_physics = 0.00015"
  "drag chaos_physics = 0.995" "maxVelocity chaos_physics = 0.08"
  "minDistance chaos_physics = 0.05" "fieldRadius chaos_physics = 2.5"
  "chaosMode chaos_physics" "chaosFactor chaos_physics = 3" "attractMode chaos_physics"
  by (simp_all add: chaos_physics_def toggleChaosMode_def default_physics_def Let_def)

lemma chaos_update:
  "particles (fst (update (\<lambda>_. 1 / 2) clock [well_at 0 0 0 1] [] 1 [] (chaos_physics, 0))) ! 0 =
     \<lparr> px = Num 0.9991045, py = Num 0, pz = Num 0, vx = Num (- 0.0008955), vy = Num 0,
       vz = Num 0, mass = 0.5, lifetime = 0.001 \<rparr>"
proof -
  have i: "0 < count chaos_physics" by (simp add: count_def chaos_physics_fields)
  have p: "particles chaos_physics ! 0 = particle_at 1 0 0 0 0 0"
    by (simp add: chaos_physics_fields)
  have pos: "px (particles chaos_physics ! 0) = Num 1" "py (particles chaos_physics ! 0) = Num 0"
    "pz (particles chaos_physics ! 0) = Num 0"
    by (simp_all add: p particle_at_def)
  have d: "(1::real) = sqrt ((well_x (well_at 0 0 0 1) * 1.5 - 1)\<^sup>2
      + (well_y (well_at 0 0 0 1) * 1.2 - 0)\<^sup>2 + (well_z (well_at 0 0 0 1) * 0.5 - 0)\<^sup>2)"
    by (simp add: well_at_def)
  have acc: "particles (fst (update (\<lambda>_. 1 / 2) clock [well_at 0 0 0 1] [] 1 [] (chaos_physics, 0))) ! 0
      = finish_particle chaos_physics (\<lambda>_. 1 / 2) 1
          ((Num (- 0.0009), Num 0, Num 0),
           draws_before chaos_physics (\<lambda>_. 1 / 2) clock (world_wells [well_at 0 0 0 1] []) 1 [] 0 0 + 2)
          (particle_at 1 0 0 0 0 0)"
    unfolding update_single_well [OF i pos d, simplified] p
    by (simp add: chaos_physics_fields well_at_def hand_vx_at_def hand_vy_at_def chaos_accel_def
          Let_def)
  show ?thesis
    unfolding acc
    using finish_axis [where s = chaos_physics and p = "particle_at 1 0 0 0 0 0" and x = 1
        and y = 0 and z = 0 and u = 0 and ma = "0.5" and l = 0 and a = "- 0.0009" and dt = 1
        and v = "- 0.0008955" and rnd = "\<lambda>_. 1 / 2"
        and ?k1.0 = "draws_before chaos_physics (\<lambda>_. 1 / 2) clock
                       (world_wells [well_at 0 0 0 1] []) 1 [] 0 0 + 2"]
    by (simp add: particle_at_def chaos_physics_fields power2_eq_square)
qed

lemma close_pair_update_flow:
  "particles (fst (update rnd clock [well_at 0 0 0 1, well_at 0.2 0 0 1] [] 1 []
            (default_physics [particle_at 1.15 0 0 0 0 0], 0))) ! 0 =
     finish_particle (default_physics [particle_at 1.15 0 0 0 0 0]) rnd 1
       (chaos_accel (default_physics [particle_at 1.15 0 0 0 0 0]) rnd
          (draws_before (default_physics [particle_at 1.15 0 0 0 0 0]) rnd clock
             (world_wells [well_at 0 0 0 1, well_at 0.2 0 0 1] []) 1 [] 0 0)
          (well_accel (default_physics [particle_at 1.15 0 0 0 0 0]) (particle_at 1.15 0 0 0 0 0)
             \<lparr> wx = 0.15, wy = 0, wz = 0, wstrength = 2.4, wvx = 0, wvy = 0 \<rparr>
             (Num 0, Num 0, Num 0)))
       (particle_at 1.15 0 0 0 0 0)"
proof -
  let ?s = "default_physics [particle_at 1.15 0 0 0 0 0]"
  have i: "0 < count ?s" by (simp add: count_def default_physics_def)
  have p: "particles ?s ! 0 = particle_at 1.15 0 0 0 0 0" by (simp add: default_physics_def)
  have D: "sqrt ((well_x (well_at 0 0 0 1) * 1.5 - well_x (well_at 0.2 0 0 1) * 1.5)\<^sup>2
              + (well_y (well_at 0 0 0 1) * 1.2 - well_y (well_at 0.2 0 0 1) * 1.2)\<^sup>2) = 0.3"
    by (simp add: well_at_def)
  show ?thesis
    unfolding update_two_wells [OF i] D p
    by (simp add: well_at_def hand_vx_at_def hand_vy_at_def)
qed

lemma close_pair_update:
  "particles (fst (update rnd clock [well_at 0 0 0 1, well_at 0.2 0 0 1] [] 1 []
            (default_physics [particle_at 1.15 0 0 0 0 0], 0))) ! 0 =
     \<lparr> px = Num 1.1496418, py = Num 0, pz = Num 0,
       vx = Num (- 0.0003582), vy = Num 0, vz = Num 0, mass = 0.5, lifetime = 0.001 \<rparr>"
proof -
  let ?s = "default_physics [particle_at 1.15 0 0 0 0 0]"
  let ?p = "particle_at 1.15 0 0 0 0 0"
  let ?M = "\<lparr> wx = 0.15, wy = 0, wz = 0, wstrength = 2.4, wvx = 0, wvy = 0 \<rparr>"
  have d: "(1::real) = sqrt ((wx ?M - 1.15)\<^sup>2 + (wy ?M - 0)\<^sup>2 + (wz ?M - 0)\<^sup>2)"
    by simp
  have wa: "well_accel ?s ?p ?M (Num 0, Num 0, Num 0) = (Num (- 0.00036), Num 0, Num 0)"
    using well_accel_num [of ?p "1.15" 0 0 1 ?M ?s "Num 0" "Num 0" "Num 0", OF _ _ _ d]
    by (simp add: default_physics_def effective_G_def particle_at_def Let_def)
  show ?thesis
    unfolding close_pair_update_flow wa
    using finish_axis [where s = ?s and p = ?p and x = "1.15" and y = 0 and z = 0 and u = 0
        and ma = "0.5" and l = 0 and a = "- 0.00036" and dt = 1
        and v = "- 0.0003582" and rnd = rnd]
    by (simp add: particle_at_def default_physics_def chaos_accel_def power2_eq_square)
qed

lemma supplied_pair_update_flow:
  "particles (fst (update rnd clock [well_at 0 0 0 1, well_at 0.3 0 0 1] [] 1 []
            (default_physics [particle_at 1.225 0 0 0 0 0], 0))) ! 0 =
     finish_particle (default_physics [particle_at 1.225 0 0 0 0 0]) rnd 1
       (chaos_accel (default_physics [particle_at 1.225 0 0 0 0 0]) rnd
          (draws_before (default_physics [particle_at 1.225 0 0 0 0 0]) rnd clock
             (world_wells [well_at 0 0 0 1, well_at 0.3 0 0 1] []) 1 [] 0 0)
          (well_accel (default_physics [particle_at 1.225 0 0 0 0 0]) (particle_at 1.225 0 0 0 0 0)
             \<lparr> wx = 0.225, wy = 0, wz = 0, wstrength = 2.1, wvx = 0, wvy = 0 \<rparr>
             (Num 0, Num 0, Num 0)))
       (particle_at 1.225 0 0 0 0 0)"
proof -
  let ?s = "default_physics [particle_at 1.225 0 0 0 0 0]"
  have i: "0 < count ?s" by (simp add: count_def default_physics_def)
  have p: "particles ?s ! 0 = particle_at 1.225 0 0 0 0 0" by (simp add: default_physics_def)
  have D: "sqrt ((well_x (well_at 0 0 0 1) * 1.5 - well_x (well_at 0.3 0 0 1) * 1.5)\<^sup>2
              + (well_y (well_at 0 0 0 1) * 1.2 - well_y (well_at 0.3 0 0 1) * 1.2)\<^sup>2) = 0.45"
    by (simp add: well_at_def)
  show ?thesis
    unfolding update_two_wells [OF i] D p
    by (simp add: well_at_def hand_vx_at_def hand_vy_at_def)
qed

lemma supplied_pair_update:
  "particles (fst (update rnd clock [well_at 0 0 0 1, well_at 0.3 0 0 1] [] 1 []
            (default_physics [particle_at 1.225 0 0 0 0 0], 0))) ! 0 =
     \<lparr> px = Num 1.224686575, py = Num 0, pz = Num 0,
       vx = Num (- 0.000313425), vy = Num 0, vz = Num 0, mass = 0.5, lifetime = 0.001 \<rparr>"
proof -
  let ?s = "default_physics [particle_at 1.225 0 0 0 0 0]"
  let ?p = "particle_at 1.225 0 0 0 0 0"
  let ?M = "\<lparr> wx = 0.225, wy = 0, wz = 0, wstrength = 2.1, wvx = 0, wvy = 0 \<rparr>"
  have d: "(1::real) = sqrt ((wx ?M - 1.225)\<^sup>2 + (wy ?M - 0)\<^sup>2 + (wz ?M - 0)\<^sup>2)"
    by simp
  have wa: "well_accel ?s ?p ?M (Num 0, Num 0, Num 0) = (Num (- 0.000315), Num 0, Num 0)"
    using well_accel_num [of ?p "1.225" 0 0 1 ?M ?s "Num 0" "Num 0" "Num 0", OF _ _ _ d]
    by (simp add: default_physics_def effective_G_def particle_at_def Let_def)
  show ?thesis
    unfolding supplied_pair_update_flow wa
    using finish_axis [where s = ?s and p = ?p and x = "1.225" and y = 0 and z = 0 and u = 0
        and ma = "0.5" and l = 0 and a = "- 0.000315" and dt = 1
        and v = "- 0.000313425" and rnd = rnd]
    by (simp add: particle_at_def default_physics_def chaos_accel_def power2_eq_square)
qed

section \<open>Facts about frames without forces\<close>

lemma speed_nonneg: "speed p = Num v \<Longrightarrow> 0 \<le> v"
  by (erule speed_NumE) simp

lemma quiet_moved_cong:
  assumes "\<not> chaosMode s" "\<not> chaosMode s'" "drag s' = drag s" "maxVelocity s' = maxVelocity s"
  shows "fst (moved s' rnd k [] now dt [] p) = fst (moved s rnd k' [] now' dt [] p)"
  using assms
  by (simp add: quiet_moved integrate_velocity_def clamp_velocity_def)

lemma quiet_update_particle:
  assumes q: "\<not> chaosMode s" "0 \<le> drag s" "0 \<le> maxVelocity s"
    and v: "speed p = Num v"
    and inside: "\<not> escaped (fst (moved s rnd k0 [] now0 dt [] p))"
  shows "speed (fst (update_particle s rnd k [] now dt [] p))
           = Num (min (drag s * v) (maxVelocity s))"
proof -
  have "fst (moved s rnd k [] now dt [] p) = fst (moved s rnd k0 [] now0 dt [] p)"
    using q(1) q(1) by (rule quiet_moved_cong) simp_all
  with inside have "\<not> escaped (fst (moved s rnd k [] now dt [] p))" by simp
  then have "fst (update_particle s rnd k [] now dt [] p)
               = advance_lifetime (fst (moved s rnd k [] now dt [] p))"
    by (rule update_particle_inside)
  then show ?thesis
    using quiet_moved_speed [OF q(1) q(3) v, of rnd k now dt] q(2) by simp
qed

lemma quiet_update_particle_velocity:
  assumes q: "\<not> chaosMode s" "0 \<le> drag s"
    and v: "speed p = Num v" "drag s * v \<le> maxVelocity s"
    and inside: "\<not> escaped (fst (moved s rnd k [] now dt [] p))"
  shows "vx (fst (update_particle s rnd k [] now dt [] p)) = nmul (vx p) (Num (drag s))
       \<and> vy (fst (update_particle s rnd k [] now dt [] p)) = nmul (vy p) (Num (drag s))
       \<and> vz (fst (update_particle s rnd k [] now dt [] p)) = nmul (vz p) (Num (drag s))"
proof -
  from v(1) obtain a b c where abc: "vx p = Num a" "vy p = Num b" "vz p = Num c"
    by (rule speed_NumE)
  let ?q = "integrate_velocity s dt (Num 0, Num 0, Num 0) p"
  have "speed ?q = Num (\<bar>drag s\<bar> * v)" using v(1) by (rule quiet_integrate_speed)
  then have "clamp_velocity s ?q = ?q"
    by (rule clamp_velocity_unchanged) (use q(2) v(2) in simp)
  then have "fst (moved s rnd k [] now dt [] p) = integrate_position dt ?q"
    by (simp add: quiet_moved [OF q(1)])
  then have "fst (update_particle s rnd k [] now dt [] p)
               = advance_lifetime (integrate_position dt ?q)"
    using update_particle_inside [OF inside] by simp
  then show ?thesis
    by (simp add: advance_lifetime_def integrate_position_def quiet_integrate_velocity [OF abc] abc)
qed

lemma quiet_update_speed:
  assumes q: "\<not> chaosMode s" "0 \<le> drag s" "0 \<le> maxVelocity s"
    and i: "i < count s"
    and v: "speed (particles s ! i) = Num v"
    and inside: "\<not> escaped (fst (moved s rnd k0 [] now0 dt [] (particles s ! i)))"
  shows "speed (particles (fst (update rnd clock [] [] dt [] (s, k))) ! i)
           = Num (min (drag s * v) (maxVelocity s))"
  unfolding update_particles_nth [OF i]
  using quiet_update_particle [OF q v inside] by (simp add: world_wells_def)

lemma axis_moved:
  assumes q: "\<not> chaosMode s"
    and p: "p = \<lparr> px = Num x, py = Num y, pz = Num z, vx = Num u, vy = Num 0, vz = Num 0,
                  mass = ma, lifetime = l \<rparr>"
    and small: "\<bar>u * drag s\<bar> \<le> maxVelocity s"
  shows "fst (moved s rnd k [] now dt [] p) =
           \<lparr> px = Num (x + u * drag s * dt), py = Num y, pz = Num z,
             vx = Num (u * drag s), vy = Num 0, vz = Num 0, mass = ma, lifetime = l \<rparr>"
proof -
  let ?q = "integrate_velocity s dt (Num 0, Num 0, Num 0) p"
  have qv: "?q = p\<lparr> vx := Num (u * drag s), vy := Num 0, vz := Num 0 \<rparr>"
    by (simp add: integrate_velocity_def p)
  have "speed ?q = Num \<bar>u * drag s\<bar>"
    unfolding qv by (rule speed_axis) simp_all
  then have "clamp_velocity s ?q = ?q"
    using small by (rule clamp_velocity_unchanged)
  then have "fst (moved s rnd k [] now dt [] p) = integrate_position dt ?q"
    by (simp add: quiet_moved [OF q])
  then show ?thesis
    unfolding qv by (simp add: integrate_position_def p)
qed

lemma drift_inside:
  "\<not> escaped (fst (moved drift_physics rnd k [] now 1 [] (particle_at 0 0 0 0.01 0 0)))"
  "\<not> escaped (fst (moved drift_physics rnd k [] now 1 []
       \<lparr> px = Num 0.00995, py = Num 0, pz = Num 0, vx = Num 0.00995, vy = Num 0, vz = Num 0,
         mass = 0.5, lifetime = 0.001 \<rparr>))"
proof -
  have c: "\<not> chaosMode drift_physics"
    by (simp add: drift_physics_def default_physics_def)
  have m: "fst (moved drift_physics rnd k [] now 1 [] (particle_at 0 0 0 0.01 0 0)) =
      \<lparr> px = Num (0 + 0.01 * drag drift_physics * 1), py = Num 0, pz = Num 0,
        vx = Num (0.01 * drag drift_physics), vy = Num 0, vz = Num 0, mass = 0.5, lifetime = 0 \<rparr>"
    by (rule axis_moved [OF c])
       (simp_all add: particle_at_def drift_physics_def default_physics_def)
  show "\<not> escaped (fst (moved drift_physics rnd k [] now 1 [] (particle_at 0 0 0 0.01 0 0)))"
    unfolding m by (simp add: escaped_def ngt_def drift_physics_def default_physics_def)
  have m': "fst (moved drift_physics rnd k [] now 1 []
       \<lparr> px = Num 0.00995, py = Num 0, pz = Num 0, vx = Num 0.00995, vy = Num 0, vz = Num 0,
         mass = 0.5, lifetime = 0.001 \<rparr>) =
      \<lparr> px = Num (0.00995 + 0.00995 * drag drift_physics * 1), py = Num 0, pz = Num 0,
        vx = Num (0.00995 * drag drift_physics), vy = Num 0, vz = Num 0,
        mass = 0.5, lifetime = 0.001 \<rparr>"
    by (rule axis_moved [OF c])
       (simp_all add: drift_physics_def default_physics_def)
  show "\<not> escaped (fst (moved drift_physics rnd k [] now 1 []
       \<lparr> px = Num 0.00995, py = Num 0, pz = Num 0, vx = Num 0.00995, vy = Num 0, vz = Num 0,
         mass = 0.5, lifetime = 0.001 \<rparr>))"
    unfolding m' by (simp add: escaped_def ngt_def drift_physics_def default_physics_def)
qed

lemma unit_direction:
  fixes u v d m :: real
  assumes d: "d = sqrt (u\<^sup>2 + v\<^sup>2)" and pos: "0 < d"
  shows "sqrt ((u / d * m)\<^sup>2 + (v / d * m)\<^sup>2) = \<bar>m\<bar>"
proof -
  have dd: "d\<^sup>2 = u\<^sup>2 + v\<^sup>2" unfolding d by simp
  have "(u / d * m)\<^sup>2 + (v / d * m)\<^sup>2 = (u\<^sup>2 + v\<^sup>2) / d\<^sup>2 * m\<^sup>2"
    by (simp add: power_mult_distrib power_divide add_divide_distrib distrib_right)
  also have "\<dots> = m\<^sup>2" using pos by (simp add: dd [symmetric])
  finally show ?thesis by simp
qed

section \<open>Gravitational constant in chaos mode\<close>

text \<open>
  Claim C3 as stated: the constant used for well forces is \<open>G\<close> with chaos mode off and
  \<open>G\<close> times the chaos factor with chaos mode on. On the code this fails. In
  \<open>chaos_physics\<close>, where \<open>toggleChaosMode\<close> has switched chaos mode on (chaos factor
  3), a call of \<open>update\<close> with one well of strength 1 at the origin, at distance 1 from
  the particle at rest at \<open>(1, 0, 0)\<close>, and with turbulence draws of \<open>1/2\<close> (no
  jitter), leaves the particle with velocity \<open>- 0.0008955 = - (6 * G) * drag\<close>, not
  \<open>- (3 * G) * drag\<close>.
\<close>

theorem chaos_gravity_counterexample:
  "chaosMode chaos_physics \<and> chaosFactor chaos_physics = 3
   \<and> vx (particles (fst (update (\<lambda>_. 1 / 2) (\<lambda>_. 0) [well_at 0 0 0 1] [] 1 []
                        (chaos_physics, 0))) ! 0) = Num (- 0.0008955)
   \<and> - 0.0008955 = - (6 * G chaos_physics) * drag chaos_physics
   \<and> - 0.0008955 \<noteq> - (chaosFactor chaos_physics * G chaos_physics) * drag chaos_physics"
  by (simp add: chaos_update chaos_physics_fields)

text \<open>
  Claim C3, amended: the gravitational constant used for well forces in a call to
  \<open>update\<close> equals the configured \<open>G\<close> when chaos mode is off and \<open>G\<close> times twice
  the chaos factor when it is on. The first part gives the acceleration that \<open>update\<close>
  integrates for particle \<open>i\<close> as the sum over the effective wells; the second gives the
  term of one well for a particle with real coordinates at distance \<open>d' > 0\<close> from it:
  inside the field radius the unit displacement times
  \<open>g * strength / max(d', minDistance)\<^sup>2\<close> with that constant \<open>g\<close> (and the slingshot
  term, in which \<open>g\<close> does not occur). The third writes both out for one supplied well
  and no hand velocity. \<open>toggleChaosMode\<close> flips chaos mode, leaves \<open>G\<close> alone and sets
  the chaos factor to 3 when it switches chaos mode on and to 1 when it switches it off, so
  that the constant is \<open>6 * G\<close> after switching on.
\<close>

theorem chaos_gravity:
  "(i < count s \<longrightarrow>
     particles (fst (update rnd clock ws hvs dt pts (s, k))) ! i =
       finish_particle s rnd dt
         (chaos_accel s rnd (draws_before s rnd clock (world_wells ws hvs) dt pts k i)
            (fold (path_accel (clock i) (particles s ! i)) pts
               (fold (well_accel s (particles s ! i)) (effectiveWells (world_wells ws hvs))
                  (Num 0, Num 0, Num 0))))
         (particles s ! i))
   \<and> (px p = Num a' \<and> py p = Num b' \<and> pz p = Num c'
        \<and> d' = sqrt ((wx W - a')\<^sup>2 + (wy W - b')\<^sup>2 + (wz W - c')\<^sup>2) \<and> d' \<noteq> 0
        \<and> g = (if chaosMode s then G s * (2 * chaosFactor s) else G s) \<longrightarrow>
      well_accel s p W (ax, ay, az) =
        (if d' < fieldRadius s then
           (let force = g * wstrength W / (max d' (minDistance s) * max d' (minDistance s));
                direction = (if attractMode s then 1 else - 1);
                ax1 = nadd ax (Num ((wx W - a') * (1 / d') * force * direction));
                ay1 = nadd ay (Num ((wy W - b') * (1 / d') * force * direction));
                az1 = nadd az (Num ((wz W - c') * (1 / d') * force * direction));
                handSpeed = sqrt (wvx W * wvx W + wvy W * wvy W)
            in if handSpeed > 0.01 \<and> d' < 0.5 then
                 (nadd ax1 (Num (wvx W * (handSpeed * 0.5 * (1 - d' / 0.5)))),
                  nadd ay1 (Num (wvy W * (handSpeed * 0.5 * (1 - d' / 0.5)))),
                  az1)
               else (ax1, ay1, az1))
         else (ax, ay, az)))
   \<and> (i < count s \<and> px (particles s ! i) = Num a \<and> py (particles s ! i) = Num b
      \<and> pz (particles s ! i) = Num c
      \<and> d = sqrt ((well_x w * 1.5 - a)\<^sup>2 + (well_y w * 1.2 - b)\<^sup>2 + (well_z w * 0.5 - c)\<^sup>2)
      \<and> d \<noteq> 0 \<and> d < fieldRadius s
      \<and> g = (if chaosMode s then G s * (2 * chaosFactor s) else G s)
      \<and> force = g * well_strength w / (max d (minDistance s) * max d (minDistance s))
      \<and> direction = (if attractMode s then 1 else - 1) \<longrightarrow>
     particles (fst (update rnd clock [w] [] dt pts (s, k))) ! i =
       finish_particle s rnd dt
         (chaos_accel s rnd (draws_before s rnd clock (world_wells [w] []) dt pts k i)
            (fold (path_accel (clock i) (particles s ! i)) pts
               (Num ((well_x w * 1.5 - a) * (1 / d) * force * direction),
                Num ((well_y w * 1.2 - b) * (1 / d) * force * direction),
                Num ((well_z w * 0.5 - c) * (1 / d) * force * direction))))
         (particles s ! i))
   \<and> chaosMode (toggleChaosMode s) = (\<not> chaosMode s)
   \<and> chaosFactor (toggleChaosMode s) = (if chaosMode s then 1 else 3)
   \<and> G (toggleChaosMode s) = G s"
proof (intro conjI impI)
  assume "i < count s"
  then show "particles (fst (update rnd clock ws hvs dt pts (s, k))) ! i =
       finish_particle s rnd dt
         (chaos_accel s rnd (draws_before s rnd clock (world_wells ws hvs) dt pts k i)
            (fold (path_accel (clock i) (particles s ! i)) pts
               (fold (well_accel s (particles s ! i)) (effectiveWells (world_wells ws hvs))
                  (Num 0, Num 0, Num 0))))
         (particles s ! i)"
    by (rule update_nth_acceleration)
next
  assume h: "px p = Num a' \<and> py p = Num b' \<and> pz p = Num c'
        \<and> d' = sqrt ((wx W - a')\<^sup>2 + (wy W - b')\<^sup>2 + (wz W - c')\<^sup>2) \<and> d' \<noteq> 0
        \<and> g = (if chaosMode s then G s * (2 * chaosFactor s) else G s)"
  then have p: "px p = Num a'" "py p = Num b'" "pz p = Num c'"
    and d: "d' = sqrt ((wx W - a')\<^sup>2 + (wy W - b')\<^sup>2 + (wz W - c')\<^sup>2)"
    and nz: "d' \<noteq> 0"
    and g: "g = (if chaosMode s then G s * (2 * chaosFactor s) else G s)"
    by blast+
  have g': "G s * (if chaosMode s then chaosFactor s * 2 else 1) = g"
    by (simp add: g)
  show "well_accel s p W (ax, ay, az) =
        (if d' < fieldRadius s then
           (let force = g * wstrength W / (max d' (minDistance s) * max d' (minDistance s));
                direction = (if attractMode s then 1 else - 1);
                ax1 = nadd ax (Num ((wx W - a') * (1 / d') * force * direction));
                ay1 = nadd ay (Num ((wy W - b') * (1 / d') * force * direction));
                az1 = nadd az (Num ((wz W - c') * (1 / d') * force * direction));
                handSpeed = sqrt (wvx W * wvx W + wvy W * wvy W)
            in if handSpeed > 0.01 \<and> d' < 0.5 then
                 (nadd ax1 (Num (wvx W * (handSpeed * 0.5 * (1 - d' / 0.5)))),
                  nadd ay1 (Num (wvy W * (handSpeed * 0.5 * (1 - d' / 0.5)))),
                  az1)
               else (ax1, ay1, az1))
         else (ax, ay, az))"
    by (simp only: well_accel_cases [OF p d nz] g')
next
  assume h: "i < count s \<and> px (particles s ! i) = Num a \<and> py (particles s ! i) = Num b
      \<and> pz (particles s ! i) = Num c
      \<and> d = sqrt ((well_x w * 1.5 - a)\<^sup>2 + (well_y w * 1.2 - b)\<^sup>2 + (well_z w * 0.5 - c)\<^sup>2)
      \<and> d \<noteq> 0 \<and> d < fieldRadius s
      \<and> g = (if chaosMode s then G s * (2 * chaosFactor s) else G s)
      \<and> force = g * well_strength w / (max d (minDistance s) * max d (minDistance s))
      \<and> direction = (if attractMode s then 1 else - 1)"
  then have i: "i < count s"
    and pos: "px (particles s ! i) = Num a" "py (particles s ! i) = Num b"
             "pz (particles s ! i) = Num c"
    and d: "d = sqrt ((well_x w * 1.5 - a)\<^sup>2 + (well_y w * 1.2 - b)\<^sup>2 + (well_z w * 0.5 - c)\<^sup>2)"
    and nz: "d \<noteq> 0" and near: "d < fieldRadius s"
    and g: "g = (if chaosMode s then G s * (2 * chaosFactor s) else G s)"
    and f: "force = g * well_strength w / (max d (minDistance s) * max d (minDistance s))"
    and dir: "direction = (if attractMode s then 1 else - 1)"
    by blast+
  show "particles (fst (update rnd clock [w] [] dt pts (s, k))) ! i =
       finish_particle s rnd dt
         (chaos_accel s rnd (draws_before s rnd clock (world_wells [w] []) dt pts k i)
            (fold (path_accel (clock i) (particles s ! i)) pts
               (Num ((well_x w * 1.5 - a) * (1 / d) * force * direction),
                Num ((well_y w * 1.2 - b) * (1 / d) * force * direction),
                Num ((well_z w * 0.5 - c) * (1 / d) * force * direction))))
         (particles s ! i)"
    unfolding update_single_well [OF i pos d nz]
    using near by (simp add: Let_def hand_vx_at_def hand_vy_at_def f g dir mult_ac)
qed (simp_all add: toggleChaosMode_def Let_def)

theorem chaos_gravity_witness:
  "particles (fst (update (\<lambda>_. 1 / 2) (\<lambda>_. 0) [well_at 0 0 0 1] [] 1 [] (chaos_physics, 0))) ! 0 =
     finish_particle chaos_physics (\<lambda>_. 1 / 2) 1
       (chaos_accel chaos_physics (\<lambda>_. 1 / 2)
          (draws_before chaos_physics (\<lambda>_. 1 / 2) (\<lambda>_. 0) (world_wells [well_at 0 0 0 1] []) 1 [] 0 0)
          (Num (- (6 * 0.00015)), Num 0, Num 0))
       (particle_at 1 0 0 0 0 0)
   \<and> particles (fst (update (\<lambda>_. 1 / 2) (\<lambda>_. 0) [well_at 0 0 0 1] [] 1 [] (chaos_physics, 0))) ! 0 =
     finish_particle chaos_physics (\<lambda>_. 1 / 2) 1
       (chaos_accel chaos_physics (\<lambda>_. 1 / 2)
          (draws_before chaos_physics (\<lambda>_. 1 / 2) (\<lambda>_. 0) (world_wells [well_at 0 0 0 1] []) 1 [] 0 0)
          (fold (well_accel chaos_physics (particle_at 1 0 0 0 0 0))
             (effectiveWells (world_wells [well_at 0 0 0 1] [])) (Num 0, Num 0, Num 0)))
       (particle_at 1 0 0 0 0 0)
   \<and> well_accel chaos_physics (particle_at 1 0 0 0 0 0)
        \<lparr> wx = 0, wy = 0, wz = 0, wstrength = 1, wvx = 0, wvy = 0 \<rparr> (Num 0, Num 0, Num 0)
       = (Num (- (6 * 0.00015)), Num 0, Num 0)
   \<and> chaosMode (toggleChaosMode (default_physics [particle_at 1 0 0 0 0 0]))
   \<and> chaosFactor (toggleChaosMode (default_physics [particle_at 1 0 0 0 0 0])) = 3
   \<and> G (toggleChaosMode (default_physics [particle_at 1 0 0 0 0 0])) = 0.00015"
proof -
  have i: "0 < count chaos_physics" by (simp add: count_def chaos_physics_fields)
  have p: "particles chaos_physics ! 0 = particle_at 1 0 0 0 0 0"
    by (simp add: chaos_physics_fields)
  note t = chaos_gravity [where s = chaos_physics and i = 0 and a = 1 and b = 0 and c = 0
      and w = "well_at 0 0 0 1" and d = 1 and g = "6 * 0.00015" and force = "6 * 0.00015"
      and direction = 1 and rnd = "\<lambda>_. 1 / 2" and clock = "\<lambda>_. 0" and dt = 1 and pts = "[]"
      and k = 0 and ws = "[well_at 0 0 0 1]" and hvs = "[]"
      and p = "particle_at 1 0 0 0 0 0" and a' = 1 and b' = 0 and c' = 0 and d' = 1
      and W = "\<lparr> wx = 0, wy = 0, wz = 0, wstrength = 1, wvx = 0, wvy = 0 \<rparr>"
      and ax = "Num 0" and ay = "Num 0" and az = "Num 0"]
  have A: "particles (fst (update (\<lambda>_. 1 / 2) (\<lambda>_. 0) [well_at 0 0 0 1] [] 1 [] (chaos_physics, 0))) ! 0 =
     finish_particle chaos_physics (\<lambda>_. 1 / 2) 1
       (chaos_accel chaos_physics (\<lambda>_. 1 / 2)
          (draws_before chaos_physics (\<lambda>_. 1 / 2) (\<lambda>_. 0) (world_wells [well_at 0 0 0 1] []) 1 [] 0 0)
          (Num (- (6 * 0.00015)), Num 0, Num 0))
       (particle_at 1 0 0 0 0 0)"
    using t [THEN conjunct2, THEN conjunct2, THEN conjunct1] i
    by (simp add: p particle_at_def chaos_physics_fields well_at_def)
  have B: "particles (fst (update (\<lambda>_. 1 / 2) (\<lambda>_. 0) [well_at 0 0 0 1] [] 1 [] (chaos_physics, 0))) ! 0 =
     finish_particle chaos_physics (\<lambda>_. 1 / 2) 1
       (chaos_accel chaos_physics (\<lambda>_. 1 / 2)
          (draws_before chaos_physics (\<lambda>_. 1 / 2) (\<lambda>_. 0) (world_wells [well_at 0 0 0 1] []) 1 [] 0 0)
          (fold (well_accel chaos_physics (particle_at 1 0 0 0 0 0))
             (effectiveWells (world_wells [well_at 0 0 0 1] [])) (Num 0, Num 0, Num 0)))
       (particle_at 1 0 0 0 0 0)"
    using t [THEN conjunct1] i by (simp only: p fold_simps)
  have C: "well_accel chaos_physics (particle_at 1 0 0 0 0 0)
        \<lparr> wx = 0, wy = 0, wz = 0, wstrength = 1, wvx = 0, wvy = 0 \<rparr> (Num 0, Num 0, Num 0)
       = (Num (- (6 * 0.00015)), Num 0, Num 0)"
    using t [THEN conjunct2, THEN conjunct1]
    by (simp add: particle_at_def chaos_physics_fields Let_def)
  have D: "chaosMode (toggleChaosMode (default_physics [particle_at 1 0 0 0 0 0]))
   \<and> chaosFactor (toggleChaosMode (default_physics [particle_at 1 0 0 0 0 0])) = 3
   \<and> G (toggleChaosMode (default_physics [particle_at 1 0 0 0 0 0])) = 0.00015"
    using chaos_gravity [where s = "default_physics [particle_at 1 0 0 0 0 0]"]
    by (simp add: default_physics_def)
  from A B C D show ?thesis by blast
qed

section \<open>Merging two wells\<close>

text \<open>
  Claim C2 as stated: two supplied wells at planar distance 0.3 with strengths 1.0 merge
  into a well of strength 2.4. On the code this fails: the distance is measured after the
  conversion to world space. With wells supplied at \<open>(0, 0)\<close> and \<open>(0.3, 0)\<close>, at planar
  distance 0.3, \<open>update\<close> accelerates the particle from a single well at
  \<open>(0.225, 0, 0)\<close> of strength 2.1: the particle at rest at distance 1 from it ends the
  call with velocity \<open>- (G * 2.1) * drag\<close>.
\<close>

theorem merged_strength_supplied_counterexample:
  "sqrt ((well_x (well_at 0 0 0 1) - well_x (well_at 0.3 0 0 1))\<^sup>2
         + (well_y (well_at 0 0 0 1) - well_y (well_at 0.3 0 0 1))\<^sup>2) = 0.3
   \<and> well_strength (well_at 0 0 0 1) = 1 \<and> well_strength (well_at 0.3 0 0 1) = 1
   \<and> particles (fst (update (\<lambda>_. 0) (\<lambda>_. 0) [well_at 0 0 0 1, well_at 0.3 0 0 1] [] 1 []
          (default_physics [particle_at 1.225 0 0 0 0 0], 0))) ! 0 =
       finish_particle (default_physics [particle_at 1.225 0 0 0 0 0]) (\<lambda>_. 0) 1
         (chaos_accel (default_physics [particle_at 1.225 0 0 0 0 0]) (\<lambda>_. 0)
            (draws_before (default_physics [particle_at 1.225 0 0 0 0 0]) (\<lambda>_. 0) (\<lambda>_. 0)
               (world_wells [well_at 0 0 0 1, well_at 0.3 0 0 1] []) 1 [] 0 0)
            (well_accel (default_physics [particle_at 1.225 0 0 0 0 0]) (particle_at 1.225 0 0 0 0 0)
               \<lparr> wx = 0.225, wy = 0, wz = 0, wstrength = 2.1, wvx = 0, wvy = 0 \<rparr>
               (Num 0, Num 0, Num 0)))
         (particle_at 1.225 0 0 0 0 0)
   \<and> vx (particles (fst (update (\<lambda>_. 0) (\<lambda>_. 0) [well_at 0 0 0 1, well_at 0.3 0 0 1] [] 1 []
          (default_physics [particle_at 1.225 0 0 0 0 0], 0))) ! 0) = Num (- (0.00015 * 2.1 * 0.995))
   \<and> (2.1 :: real) \<noteq> 2.4"
proof -
  have "sqrt ((well_x (well_at 0 0 0 1) - well_x (well_at 0.3 0 0 1))\<^sup>2
         + (well_y (well_at 0 0 0 1) - well_y (well_at 0.3 0 0 1))\<^sup>2) = 0.3"
    by (simp add: well_at_def)
  moreover have "well_strength (well_at 0 0 0 1) = 1 \<and> well_strength (well_at 0.3 0 0 1) = 1"
    by (simp add: well_at_def)
  moreover note supplied_pair_update_flow [of "\<lambda>_. 0" "\<lambda>_. 0"]
  moreover have "vx (particles (fst (update (\<lambda>_. 0) (\<lambda>_. 0) [well_at 0 0 0 1, well_at 0.3 0 0 1] [] 1 []
          (default_physics [particle_at 1.225 0 0 0 0 0], 0))) ! 0) = Num (- (0.00015 * 2.1 * 0.995))"
    unfolding supplied_pair_update by simp
  ultimately show ?thesis by simp
qed

text \<open>
  Claim C2, amended: when \<open>update\<close> is called with exactly two wells whose planar
  distance \<open>d\<close> in world space (between \<open>(1.5 x, 1.2 y)\<close> of each, z ignored) is less
  than 0.5, every particle is accelerated by a single well in place of the two: the well at
  the midpoint of the two world positions, with strength
  \<open>(s1 + s2) * (1 + (1 - d / 0.5) * 0.5)\<close> and the average of the two hand velocities
  (zero for a missing entry); in particular, at world distance 0.3 with strengths 1.0 the
  merged strength is 2.4.
\<close>

theorem merged_strength_scaled:
  "i < count s
   \<and> d = sqrt ((well_x w0 * 1.5 - well_x w1 * 1.5)\<^sup>2 + (well_y w0 * 1.2 - well_y w1 * 1.2)\<^sup>2)
   \<and> d < 0.5
   \<and> merged = \<lparr> wx = (well_x w0 * 1.5 + well_x w1 * 1.5) / 2,
                 wy = (well_y w0 * 1.2 + well_y w1 * 1.2) / 2,
                 wz = (well_z w0 * 0.5 + well_z w1 * 0.5) / 2,
                 wstrength = (well_strength w0 + well_strength w1) * (1 + (1 - d / 0.5) * 0.5),
                 wvx = (hand_vx_at hvs 0 + hand_vx_at hvs 1) / 2,
                 wvy = (hand_vy_at hvs 0 + hand_vy_at hvs 1) / 2 \<rparr> \<longrightarrow>
   particles (fst (update rnd clock [w0, w1] hvs dt pts (s, k))) ! i =
     finish_particle s rnd dt
       (chaos_accel s rnd (draws_before s rnd clock (world_wells [w0, w1] hvs) dt pts k i)
          (fold (path_accel (clock i) (particles s ! i)) pts
             (well_accel s (particles s ! i) merged (Num 0, Num 0, Num 0))))
       (particles s ! i)
   \<and> (d = 0.3 \<and> well_strength w0 = 1 \<and> well_strength w1 = 1 \<longrightarrow> wstrength merged = 2.4)"
proof (intro impI)
  assume h: "i < count s
   \<and> d = sqrt ((well_x w0 * 1.5 - well_x w1 * 1.5)\<^sup>2 + (well_y w0 * 1.2 - well_y w1 * 1.2)\<^sup>2)
   \<and> d < 0.5
   \<and> merged = \<lparr> wx = (well_x w0 * 1.5 + well_x w1 * 1.5) / 2,
                 wy = (well_y w0 * 1.2 + well_y w1 * 1.2) / 2,
                 wz = (well_z w0 * 0.5 + well_z w1 * 0.5) / 2,
                 wstrength = (well_strength w0 + well_strength w1) * (1 + (1 - d / 0.5) * 0.5),
                 wvx = (hand_vx_at hvs 0 + hand_vx_at hvs 1) / 2,
                 wvy = (hand_vy_at hvs 0 + hand_vy_at hvs 1) / 2 \<rparr>"
  then have i: "i < count s" by blast
  from h have m: "merged = \<lparr> wx = (well_x w0 * 1.5 + well_x w1 * 1.5) / 2,
                 wy = (well_y w0 * 1.2 + well_y w1 * 1.2) / 2,
                 wz = (well_z w0 * 0.5 + well_z w1 * 0.5) / 2,
                 wstrength = (well_strength w0 + well_strength w1) * (1 + (1 - d / 0.5) * 0.5),
                 wvx = (hand_vx_at hvs 0 + hand_vx_at hvs 1) / 2,
                 wvy = (hand_vy_at hvs 0 + hand_vy_at hvs 1) / 2 \<rparr>" by blast
  from h have d: "sqrt ((well_x w0 * 1.5 - well_x w1 * 1.5)\<^sup>2
                       + (well_y w0 * 1.2 - well_y w1 * 1.2)\<^sup>2) = d" and c: "d < 0.5"
    by simp_all
  have "particles (fst (update rnd clock [w0, w1] hvs dt pts (s, k))) ! i =
     finish_particle s rnd dt
       (chaos_accel s rnd (draws_before s rnd clock (world_wells [w0, w1] hvs) dt pts k i)
          (fold (path_accel (clock i) (particles s ! i)) pts
             (well_accel s (particles s ! i) merged (Num 0, Num 0, Num 0))))
       (particles s ! i)"
    unfolding update_two_wells [OF i] d m using c by simp
  moreover have "d = 0.3 \<and> well_strength w0 = 1 \<and> well_strength w1 = 1 \<longrightarrow> wstrength merged = 2.4"
    by (simp add: m)
  ultimately show "particles (fst (update rnd clock [w0, w1] hvs dt pts (s, k))) ! i =
     finish_particle s rnd dt
       (chaos_accel s rnd (draws_before s rnd clock (world_wells [w0, w1] hvs) dt pts k i)
          (fold (path_accel (clock i) (particles s ! i)) pts
             (well_accel s (particles s ! i) merged (Num 0, Num 0, Num 0))))
       (particles s ! i)
   \<and> (d = 0.3 \<and> well_strength w0 = 1 \<and> well_strength w1 = 1 \<longrightarrow> wstrength merged = 2.4)"
    by blast
qed

theorem merged_strength_scaled_witness:
  "particles (fst (update (\<lambda>_. 0) (\<lambda>_. 0) [well_at 0 0 0 1, well_at 0.2 0 0 1] [] 1 []
          (default_physics [particle_at 1.15 0 0 0 0 0], 0))) ! 0 =
       finish_particle (default_physics [particle_at 1.15 0 0 0 0 0]) (\<lambda>_. 0) 1
         (chaos_accel (default_physics [particle_at 1.15 0 0 0 0 0]) (\<lambda>_. 0)
            (draws_before (default_physics [particle_at 1.15 0 0 0 0 0]) (\<lambda>_. 0) (\<lambda>_. 0)
               (world_wells [well_at 0 0 0 1, well_at 0.2 0 0 1] []) 1 [] 0 0)
            (well_accel (default_physics [particle_at 1.15 0 0 0 0 0]) (particle_at 1.15 0 0 0 0 0)
               \<lparr> wx = 0.15, wy = 0, wz = 0, wstrength = 2.4, wvx = 0, wvy = 0 \<rparr>
               (Num 0, Num 0, Num 0)))
         (particle_at 1.15 0 0 0 0 0)
   \<and> vx (particles (fst (update (\<lambda>_. 0) (\<lambda>_. 0) [well_at 0 0 0 1, well_at 0.2 0 0 1] [] 1 []
          (default_physics [particle_at 1.15 0 0 0 0 0], 0))) ! 0) = Num (- (0.00015 * 2.4 * 0.995))"
proof -
  have i: "0 < count (default_physics [particle_at 1.15 0 0 0 0 0])"
    by (simp add: count_def default_physics_def)
  have p: "particles (default_physics [particle_at 1.15 0 0 0 0 0]) ! 0 = particle_at 1.15 0 0 0 0 0"
    by (simp add: default_physics_def)
  have d: "(0.3::real) = sqrt ((well_x (well_at 0 0 0 1) * 1.5 - well_x (well_at 0.2 0 0 1) * 1.5)\<^sup>2
      + (well_y (well_at 0 0 0 1) * 1.2 - well_y (well_at 0.2 0 0 1) * 1.2)\<^sup>2)"
    by (simp add: well_at_def)
  have m: "\<lparr> wx = 0.15, wy = 0, wz = 0, wstrength = 2.4, wvx = 0, wvy = 0 \<rparr> =
      \<lparr> wx = (well_x (well_at 0 0 0 1) * 1.5 + well_x (well_at 0.2 0 0 1) * 1.5) / 2,
        wy = (well_y (well_at 0 0 0 1) * 1.2 + well_y (well_at 0.2 0 0 1) * 1.2) / 2,
        wz = (well_z (well_at 0 0 0 1) * 0.5 + well_z (well_at 0.2 0 0 1) * 0.5) / 2,
        wstrength = (well_strength (well_at 0 0 0 1) + well_strength (well_at 0.2 0 0 1))
                      * (1 + (1 - 0.3 / 0.5) * 0.5),
        wvx = (hand_vx_at [] 0 + hand_vx_at [] 1) / 2,
        wvy = (hand_vy_at [] 0 + hand_vy_at [] 1) / 2 \<rparr>"
    by (simp add: well_at_def hand_vx_at_def hand_vy_at_def)
  have c: "(0.3::real) < 0.5" by simp
  from merged_strength_scaled [where i = 0 and s = "default_physics [particle_at 1.15 0 0 0 0 0]"
      and d = "0.3" and ?w0.0 = "well_at 0 0 0 1" and ?w1.0 = "well_at 0.2 0 0 1" and hvs = "[]"
      and merged = "\<lparr> wx = 0.15, wy = 0, wz = 0, wstrength = 2.4, wvx = 0, wvy = 0 \<rparr>"
      and rnd = "\<lambda>_. 0" and clock = "\<lambda>_. 0" and dt = 1 and pts = "[]" and k = 0] i d m c
  have "particles (fst (update (\<lambda>_. 0) (\<lambda>_. 0) [well_at 0 0 0 1, well_at 0.2 0 0 1] [] 1 []
          (default_physics [particle_at 1.15 0 0 0 0 0], 0))) ! 0 =
       finish_particle (default_physics [particle_at 1.15 0 0 0 0 0]) (\<lambda>_. 0) 1
         (chaos_accel (default_physics [particle_at 1.15 0 0 0 0 0]) (\<lambda>_. 0)
            (draws_before (default_physics [particle_at 1.15 0 0 0 0 0]) (\<lambda>_. 0) (\<lambda>_. 0)
               (world_wells [well_at 0 0 0 1, well_at 0.2 0 0 1] []) 1 [] 0 0)
            (well_accel (default_physics [particle_at 1.15 0 0 0 0 0]) (particle_at 1.15 0 0 0 0 0)
               \<lparr> wx = 0.15, wy = 0, wz = 0, wstrength = 2.4, wvx = 0, wvy = 0 \<rparr>
               (Num 0, Num 0, Num 0)))
         (particle_at 1.15 0 0 0 0 0)"
    by (simp only: p fold_simps)
  moreover have "vx (particles (fst (update (\<lambda>_. 0) (\<lambda>_. 0) [well_at 0 0 0 1, well_at 0.2 0 0 1] [] 1 []
          (default_physics [particle_at 1.15 0 0 0 0 0], 0))) ! 0) = Num (- (0.00015 * 2.4 * 0.995))"
    unfolding close_pair_update by simp
  ultimately show ?thesis by blast
qed

section \<open>A particle on a well\<close>

text \<open>
  Claim C4, evaluated on the code: the acceleration, velocity and position are finite even
  when a particle coincides with a well. With the constructor's constants, a particle at
  rest at the origin and one well at the origin, the distance is zero, \<open>softDist\<close> is
  floored to \<open>minDistance\<close>, but \<open>invDist = 1 / dist\<close> divides by the unfloored
  distance: the acceleration is \<open>NaN\<close> in all three components, and so are the velocity
  and the position that \<open>update\<close> stores.
\<close>

theorem coincident_well_not_finite:
  "acceleration (default_physics []) rnd k (world_wells [well_at 0 0 0 1] []) now []
       (particle_at 0 0 0 0 0 0) = ((NaN, NaN, NaN), k)
   \<and> fst (update rnd clock [well_at 0 0 0 1] [] 1 [] (default_physics [particle_at 0 0 0 0 0 0], k))
     = default_physics [\<lparr> px = NaN, py = NaN, pz = NaN, vx = NaN, vy = NaN, vz = NaN,
          mass = 0.5, lifetime = 0.001 \<rparr>]"
  by (simp add: update_defs default_physics_def well_at_def particle_at_def)

text \<open>
  Claim C1, evaluated on the code: after \<open>update\<close> every particle's speed is at most
  \<open>maxVelocity = 0.08\<close>. A particle at \<open>(1.5, 0, 0)\<close> with velocity
  \<open>(0.0625, 0, 0)\<close> and a well supplied at \<open>(1, 0, 0)\<close>, which is \<open>(1.5, 0, 0)\<close> in
  world space (all of these are single-precision numbers): the velocity becomes \<open>NaN\<close>,
  the test \<open>speed > maxV\<close> is false, nothing is clamped, and the speed reported by
  \<open>getSpeeds\<close> is \<open>NaN\<close>, which is not at most 0.08.
\<close>

theorem coincident_velocity_not_clamped:
  "getSpeeds (fst (update rnd clock [well_at 1 0 0 0.5] [] 1 []
       (default_physics [particle_at 1.5 0 0 0.0625 0 0], 0)))
     = [NaN]"
  by (simp add: getSpeeds_def update_defs default_physics_def well_at_def particle_at_def)

section \<open>Boundary recycling\<close>

text \<open>
  Claim C5 as stated: a particle that has left the disc \<open>x\<^sup>2 + y\<^sup>2 \<le> 16\<close> is reset to a
  point within radius 0.4 of the origin. On the code this fails for the distance in space:
  \<open>respawnParticle\<close> draws the planar radius in \<open>[0.1, 0.4)\<close> and a \<open>z\<close> coordinate
  in \<open>[- 0.05, 0.05)\<close> of its own. With the draws of \<open>far_rnd\<close> the particle of
  \<open>edge_physics\<close> is respawned at \<open>(0.3997, 0, 0.0499)\<close>, at distance more than 0.4
  from the origin.
\<close>

theorem respawn_radius_counterexample:
  "px (fst (moved edge_physics far_rnd 0 [] 0 1 [] (particles edge_physics ! 0))) = Num 4.000495
   \<and> py (fst (moved edge_physics far_rnd 0 [] 0 1 [] (particles edge_physics ! 0))) = Num 0
   \<and> (4.000495::real)\<^sup>2 + 0\<^sup>2 > 16
   \<and> particles (fst (update far_rnd (\<lambda>_. 0) [] [] 1 [] (edge_physics, 0))) ! 0 =
       \<lparr> px = Num 0.3997, py = Num 0, pz = Num 0.0499, vx = Num (- 0.005), vy = Num (- 0.005),
         vz = Num 0, mass = 0.5, lifetime = 0.001 \<rparr>
   \<and> (0.3997::real)\<^sup>2 + 0\<^sup>2 + 0.0499\<^sup>2 > 0.4\<^sup>2"
proof -
  have p: "particles edge_physics ! 0 = particle_at 3.9995 0 0 0.001 0 0"
    by (simp add: edge_physics_def default_physics_def)
  have m: "px (fst (moved edge_physics far_rnd 0 [] 0 1 [] (particles edge_physics ! 0))) = Num 4.000495
   \<and> py (fst (moved edge_physics far_rnd 0 [] 0 1 [] (particles edge_physics ! 0))) = Num 0"
    unfolding p edge_moved by (simp add: particle_at_def)
  have r: "particles (fst (update far_rnd (\<lambda>_. 0) [] [] 1 [] (edge_physics, 0))) ! 0 =
       \<lparr> px = Num 0.3997, py = Num 0, pz = Num 0.0499, vx = Num (- 0.005), vy = Num (- 0.005),
         vz = Num 0, mass = 0.5, lifetime = 0.001 \<rparr>"
    unfolding edge_update_any
    by (simp add: respawnParticle_def advance_lifetime_def far_rnd_def particle_at_def Let_def)
  have n: "(4.000495::real)\<^sup>2 + 0\<^sup>2 > 16" "(0.3997::real)\<^sup>2 + 0\<^sup>2 + 0.0499\<^sup>2 > 0.4\<^sup>2"
    by (simp_all add: power2_eq_square)
  from m r n show ?thesis by blast
qed

text \<open>
  Claim C5, amended: in every \<open>update\<close> call, a particle whose position \<open>p1\<close> after the
  position update satisfies \<open>x\<^sup>2 + y\<^sup>2 > 16\<close> is respawned before the call returns, from
  the next five draws \<open>r0, ..., r4\<close> of \<open>Math.random()\<close> (those after the two turbulence
  draws of the particle in chaos mode): its position becomes
  \<open>(cos (2 pi r0) R, sin (2 pi r0) R, (r2 - 0.5) * 0.1)\<close> with \<open>R = 0.1 + 0.3 r1\<close>, its
  velocity \<open>((r3 - 0.5) * 0.01, (r4 - 0.5) * 0.01, 0)\<close>, its mass is kept, and its
  lifetime is set to 0 and advanced by the lifetime step of the same iteration to
  \<open>0.001\<close>. With draws in \<open>[0, 1)\<close> the planar distance from the origin lies in
  \<open>[0.1, 0.4)\<close>, \<open>z\<close> in \<open>[- 0.05, 0.05)\<close>, and the \<open>x\<close> and \<open>y\<close> velocities in
  \<open>[- 0.005, 0.005)\<close>, an interval of width 0.01.
\<close>

theorem respawn_boundary:
  assumes i: "i < count s"
    and ki: "ki = draws_before s rnd clock (world_wells ws hvs) dt pts k i"
    and p1: "p1 = fst (moved s rnd ki (world_wells ws hvs) (clock i) dt pts (particles s ! i))"
    and pos: "px p1 = Num a" "py p1 = Num b"
    and out: "a\<^sup>2 + b\<^sup>2 > 16"
    and k1: "k1 = (if chaosMode s then ki + 2 else ki)"
    and p': "p' = particles (fst (update rnd clock ws hvs dt pts (s, k))) ! i"
  shows "p' = \<lparr> px = Num (cos (rnd k1 * pi * 2) * (0.1 + rnd (k1 + 1) * 0.3)),
                py = Num (sin (rnd k1 * pi * 2) * (0.1 + rnd (k1 + 1) * 0.3)),
                pz = Num ((rnd (k1 + 2) - 0.5) * 0.1),
                vx = Num ((rnd (k1 + 3) - 0.5) * 0.01),
                vy = Num ((rnd (k1 + 4) - 0.5) * 0.01),
                vz = Num 0,
                mass = mass (particles s ! i),
                lifetime = 0.001 \<rparr>
       \<and> ((\<forall>n. 0 \<le> rnd n \<and> rnd n < 1) \<longrightarrow>
            (\<exists>x y z u w.
                px p' = Num x \<and> py p' = Num y \<and> pz p' = Num z
              \<and> vx p' = Num u \<and> vy p' = Num w
              \<and> 0.1\<^sup>2 \<le> x\<^sup>2 + y\<^sup>2 \<and> x\<^sup>2 + y\<^sup>2 < 0.4\<^sup>2
              \<and> - 0.05 \<le> z \<and> z < 0.05
              \<and> - 0.005 \<le> u \<and> u < 0.005 \<and> - 0.005 \<le> w \<and> w < 0.005))"
proof -
  have esc: "escaped (fst (moved s rnd ki (world_wells ws hvs) (clock i) dt pts (particles s ! i)))"
    using escaped_Num [OF pos] out p1 by simp
  have k1': "snd (moved s rnd ki (world_wells ws hvs) (clock i) dt pts (particles s ! i)) = k1"
    by (simp only: moved_draws k1)
  have eq: "p' = advance_lifetime (fst (respawnParticle rnd k1 p1))"
    unfolding p' update_particles_nth [OF i] ki [symmetric]
    by (simp only: update_particle_escaped [OF esc] k1' p1)
  have ma: "mass p1 = mass (particles s ! i)" by (simp add: p1)
  let ?x = "cos (rnd k1 * pi * 2) * (0.1 + rnd (k1 + 1) * 0.3)"
  let ?y = "sin (rnd k1 * pi * 2) * (0.1 + rnd (k1 + 1) * 0.3)"
  let ?z = "(rnd (k1 + 2) - 0.5) * 0.1"
  let ?u = "(rnd (k1 + 3) - 0.5) * 0.01"
  let ?w = "(rnd (k1 + 4) - 0.5) * 0.01"
  have exact: "p' = \<lparr> px = Num ?x, py = Num ?y, pz = Num ?z, vx = Num ?u, vy = Num ?w,
                vz = Num 0, mass = mass (particles s ! i), lifetime = 0.001 \<rparr>"
    unfolding eq ma [symmetric]
    by (cases p1) (simp add: respawnParticle_def advance_lifetime_def Let_def)
  have bounds: "\<exists>x y z u w.
                px p' = Num x \<and> py p' = Num y \<and> pz p' = Num z
              \<and> vx p' = Num u \<and> vy p' = Num w
              \<and> 0.1\<^sup>2 \<le> x\<^sup>2 + y\<^sup>2 \<and> x\<^sup>2 + y\<^sup>2 < 0.4\<^sup>2
              \<and> - 0.05 \<le> z \<and> z < 0.05
              \<and> - 0.005 \<le> u \<and> u < 0.005 \<and> - 0.005 \<le> w \<and> w < 0.005"
    if rnd: "\<forall>n. 0 \<le> rnd n \<and> rnd n < 1"
  proof -
    have b: "\<And>n. 0 \<le> rnd n" "\<And>n. rnd n < 1" using rnd by simp_all
    have fields: "px p' = Num ?x" "py p' = Num ?y" "pz p' = Num ?z" "vx p' = Num ?u"
      "vy p' = Num ?w"
      by (simp_all add: exact)
    have disc: "0.1\<^sup>2 \<le> ?x\<^sup>2 + ?y\<^sup>2" "?x\<^sup>2 + ?y\<^sup>2 < 0.4\<^sup>2"
      using respawn_in_disc [of "rnd (k1 + 1)" "rnd k1 * pi * 2"] b by blast+
    have z: "- 0.05 \<le> ?z" "?z < 0.05" using b [of "k1 + 2"] by simp_all
    have u: "- 0.005 \<le> ?u" "?u < 0.005" using b [of "k1 + 3"] by simp_all
    have w: "- 0.005 \<le> ?w" "?w < 0.005" using b [of "k1 + 4"] by simp_all
    from fields disc z u w show ?thesis by blast
  qed
  from exact bounds show ?thesis by blast
qed

theorem respawn_boundary_witness:
  "particles (fst (update edge_rnd (\<lambda>_. 0) [] [] 1 [] (edge_physics, 0))) ! 0 =
     \<lparr> px = Num 0.1, py = Num 0, pz = Num (- 0.05), vx = Num (- 0.005), vy = Num 0, vz = Num 0,
       mass = 0.5, lifetime = 0.001 \<rparr>
   \<and> (\<exists>x y z u w.
         px (particles (fst (update edge_rnd (\<lambda>_. 0) [] [] 1 [] (edge_physics, 0))) ! 0) = Num x
       \<and> py (particles (fst (update edge_rnd (\<lambda>_. 0) [] [] 1 [] (edge_physics, 0))) ! 0) = Num y
       \<and> pz (particles (fst (update edge_rnd (\<lambda>_. 0) [] [] 1 [] (edge_physics, 0))) ! 0) = Num z
       \<and> vx (particles (fst (update edge_rnd (\<lambda>_. 0) [] [] 1 [] (edge_physics, 0))) ! 0) = Num u
       \<and> vy (particles (fst (update edge_rnd (\<lambda>_. 0) [] [] 1 [] (edge_physics, 0))) ! 0) = Num w
       \<and> 0.1\<^sup>2 \<le> x\<^sup>2 + y\<^sup>2 \<and> x\<^sup>2 + y\<^sup>2 < 0.4\<^sup>2
       \<and> - 0.05 \<le> z \<and> z < 0.05
       \<and> - 0.005 \<le> u \<and> u < 0.005 \<and> - 0.005 \<le> w \<and> w < 0.005)"
proof -
  have i: "0 < count edge_physics"
    by (simp add: count_def edge_physics_def default_physics_def)
  have p: "particles edge_physics ! 0 = particle_at 3.9995 0 0 0.001 0 0"
    by (simp add: edge_physics_def default_physics_def)
  have c: "\<not> chaosMode edge_physics" "mass (particles edge_physics ! 0) = 0.5"
    by (simp_all add: edge_physics_def default_physics_def particle_at_def)
  have w: "world_wells [] [] = []" by (simp add: world_wells_def)
  have k0: "draws_before edge_physics edge_rnd (\<lambda>_. 0) (world_wells [] []) 1 [] 0 0 = 0"
    by (simp add: draws_before_def)
  have pos: "px (fst (moved edge_physics edge_rnd
                   (draws_before edge_physics edge_rnd (\<lambda>_. 0) (world_wells [] []) 1 [] 0 0)
                   (world_wells [] []) 0 1 [] (particles edge_physics ! 0))) = Num 4.000495"
            "py (fst (moved edge_physics edge_rnd
                   (draws_before edge_physics edge_rnd (\<lambda>_. 0) (world_wells [] []) 1 [] 0 0)
                   (world_wells [] []) 0 1 [] (particles edge_physics ! 0))) = Num 0"
    unfolding p w edge_moved by (simp_all add: particle_at_def)
  have out: "(4.000495::real)\<^sup>2 + 0\<^sup>2 > 16" by (simp add: power2_eq_square)
  have rnd: "\<forall>n. 0 \<le> edge_rnd n \<and> edge_rnd n < 1" by (simp add: edge_rnd_def)
  note r = respawn_boundary [OF i refl refl pos out refl refl, unfolded k0]
  from r [THEN conjunct1]
  have A: "particles (fst (update edge_rnd (\<lambda>_. 0) [] [] 1 [] (edge_physics, 0))) ! 0 =
     \<lparr> px = Num 0.1, py = Num 0, pz = Num (- 0.05), vx = Num (- 0.005), vy = Num 0, vz = Num 0,
       mass = 0.5, lifetime = 0.001 \<rparr>"
    by (simp add: c edge_rnd_def)
  from r [THEN conjunct2] rnd A show ?thesis by blast
qed

section \<open>Lifetimes and the population\<close>

text \<open>
  Claim C9: \<open>applyExplosion\<close> and \<open>applyImplosion\<close> change only the \<open>x\<close> and \<open>y\<close>
  components of velocities: every particle's position, \<open>z\<close> velocity, mass and lifetime
  are as before the call; the constructor with count \<open>n\<close> gives \<open>n\<close> particles, and no
  sequence of \<open>update\<close>, impulse, chaos-toggle and \<open>initParticles\<close> calls changes the
  count.
\<close>

theorem impulses_frame:
  "map px (particles (applyExplosion x y st s)) = map px (particles s)
   \<and> map py (particles (applyExplosion x y st s)) = map py (particles s)
   \<and> map pz (particles (applyExplosion x y st s)) = map pz (particles s)
   \<and> map vz (particles (applyExplosion x y st s)) = map vz (particles s)
   \<and> map mass (particles (applyExplosion x y st s)) = map mass (particles s)
   \<and> map lifetime (particles (applyExplosion x y st s)) = map lifetime (particles s)
   \<and> map px (particles (applyImplosion x y st s)) = map px (particles s)
   \<and> map py (particles (applyImplosion x y st s)) = map py (particles s)
   \<and> map pz (particles (applyImplosion x y st s)) = map pz (particles s)
   \<and> map vz (particles (applyImplosion x y st s)) = map vz (particles s)
   \<and> map mass (particles (applyImplosion x y st s)) = map mass (particles s)
   \<and> map lifetime (particles (applyImplosion x y st s)) = map lifetime (particles s)
   \<and> count (fst (constructor rnd k n)) = n
   \<and> count (fst (run rnd cs (s, k))) = count s
   \<and> count (fst (run rnd cs (constructor rnd k n))) = n"
  by (simp add: applyExplosion_def applyImplosion_def count_run comp_def)
    (simp add: count_def constructor_def)

text \<open>
  Claim C8 as stated: a particle respawned during an \<open>update\<close> has lifetime 0 at the end
  of that call. On the code this fails: \<open>respawnParticle\<close> sets the lifetime to 0 and the
  lifetime step of the same loop iteration advances it, so the lifetime of the particle of
  \<open>edge_physics\<close>, which leaves the boundary and is respawned, is \<open>0.001\<close> when
  \<open>update\<close> returns.
\<close>

theorem lifetime_respawn_counterexample:
  "escaped (fst (moved edge_physics edge_rnd 0 [] 0 1 [] (particles edge_physics ! 0)))
   \<and> lifetime (particles (fst (update edge_rnd (\<lambda>_. 0) [] [] 1 [] (edge_physics, 0))) ! 0) = 0.001
   \<and> lifetime (particles (fst (update edge_rnd (\<lambda>_. 0) [] [] 1 [] (edge_physics, 0))) ! 0) \<noteq> 0"
proof -
  have p: "particles edge_physics ! 0 = particle_at 3.9995 0 0 0.001 0 0"
    by (simp add: edge_physics_def default_physics_def)
  have "escaped (fst (moved edge_physics edge_rnd 0 [] 0 1 [] (particles edge_physics ! 0)))"
    unfolding p by (rule edge_escaped)
  then show ?thesis by (simp add: edge_update)
qed

text \<open>
  Claim C8, amended: for every particle, the lifetime stays in \<open>[0, 1]\<close> across all
  operations (it is in \<open>[0, 1)\<close> after construction, with draws in \<open>[0, 1)\<close>); each
  \<open>update\<close> call increases it by the fixed increment \<open>0.001\<close>, saturating at 1; and a
  particle respawned during an \<open>update\<close> has its lifetime reset to 0 by the respawn and
  then advanced by the increment of the same iteration, so its lifetime at the end of that
  call is \<open>0.001\<close>.
\<close>

theorem lifetime_bounds:
  "((\<forall>n. 0 \<le> rnd n \<and> rnd n < 1) \<longrightarrow> lifetimes_ok (fst (constructor rnd k n)))
   \<and> ((\<forall>n. 0 \<le> rnd n \<and> rnd n < 1) \<and> lifetimes_ok s \<longrightarrow>
        lifetimes_ok (fst (run rnd cs (s, k))))
   \<and> (i < count s \<longrightarrow>
        lifetime (particles (fst (update rnd clock ws hvs dt pts (s, k))) ! i) =
          (if escaped (fst (moved s rnd (draws_before s rnd clock (world_wells ws hvs) dt pts k i)
                             (world_wells ws hvs) (clock i) dt pts (particles s ! i)))
           then 0.001
           else min 1 (lifetime (particles s ! i) + 0.001)))"
proof (intro conjI impI)
  assume "\<forall>n. 0 \<le> rnd n \<and> rnd n < 1"
  then show "lifetimes_ok (fst (constructor rnd k n))"
    by (simp add: constructor_def lifetimes_ok_def init_loop_lifetimes)
next
  assume "(\<forall>n. 0 \<le> rnd n \<and> rnd n < 1) \<and> lifetimes_ok s"
  then show "lifetimes_ok (fst (run rnd cs (s, k)))"
    using run_lifetimes_ok [of rnd "(s, k)" cs] by simp
next
  assume "i < count s"
  then show "lifetime (particles (fst (update rnd clock ws hvs dt pts (s, k))) ! i) =
          (if escaped (fst (moved s rnd (draws_before s rnd clock (world_wells ws hvs) dt pts k i)
                             (world_wells ws hvs) (clock i) dt pts (particles s ! i)))
           then 0.001
           else min 1 (lifetime (particles s ! i) + 0.001))"
    by (simp only: update_particles_nth update_particle_lifetime)
qed

theorem lifetime_bounds_witness:
  "lifetimes_ok (fst (constructor (\<lambda>_. 0) 0 2))
   \<and> lifetimes_ok (fst (run (\<lambda>_. 0) [Update (\<lambda>_. 0) [] [] 1 [], Explosion 0 0 1] (old_physics, 0)))
   \<and> lifetime (particles (fst (update (\<lambda>_. 0) (\<lambda>_. 0) [] [] 1 [] (old_physics, 0))) ! 0) = 1"
proof -
  have ok: "lifetimes_ok old_physics"
    by (simp add: lifetimes_ok_def old_physics_def default_physics_def particle_at_def)
  have i: "0 < count old_physics"
    by (simp add: count_def old_physics_def default_physics_def)
  have ne: "\<not> escaped (fst (moved old_physics (\<lambda>_. 0)
        (draws_before old_physics (\<lambda>_. 0) (\<lambda>_. 0) (world_wells [] []) 1 [] 0 0)
        (world_wells [] []) 0 1 [] (particles old_physics ! 0)))"
    by (simp add: update_defs old_physics_def default_physics_def particle_at_def)
  have l: "lifetime (particles old_physics ! 0) = 0.9995"
    by (simp add: old_physics_def default_physics_def)
  have rnd: "\<forall>n::nat. (0::real) \<le> (\<lambda>_. 0) n \<and> (\<lambda>_. 0::real) n < 1" by simp
  from lifetime_bounds [where rnd = "\<lambda>_. 0" and k = 0 and n = 2 and s = old_physics
         and cs = "[Update (\<lambda>_. 0) [] [] 1 [], Explosion 0 0 1]" and i = 0
         and clock = "\<lambda>_. 0" and ws = "[]" and hvs = "[]" and dt = 1 and pts = "[]"]
  show ?thesis using ok i ne l rnd by simp
qed

section \<open>World-space coordinates\<close>

text \<open>
  Claim C10: \<open>update\<close>, \<open>applyExplosion\<close> and \<open>applyImplosion\<close> do not use the
  caller's coordinates directly. In a call of \<open>update\<close> the acceleration of every
  particle is summed over the supplied wells rescaled to \<open>(1.5 x, 1.2 y, 0.5 z)\<close>; when
  exactly two wells are supplied they are replaced by their merged well exactly when the
  rescaled positions are less than \<open>0.5\<close> apart in the plane. For one supplied well the
  result is written out: nothing is added at a distance of at least \<open>fieldRadius\<close> from
  the rescaled position, and nearer the particle is pulled along the displacement to the
  rescaled position with the softened inverse square of that distance, with the slingshot
  term when the hand is fast and that distance is below \<open>0.5\<close>; the fourth part states
  the same of each well of a list. \<open>applyExplosion\<close> and \<open>applyImplosion\<close> at
  \<open>(x, y)\<close> measure distance, cutoffs and direction from \<open>(1.5 x, 1.2 y)\<close>.
\<close>

theorem world_space_coordinates:
  "(i < count s \<and> length ws \<noteq> 2 \<longrightarrow>
      particles (fst (update rnd clock ws hvs dt pts (s, k))) ! i =
        finish_particle s rnd dt
          (chaos_accel s rnd (draws_before s rnd clock (world_wells ws hvs) dt pts k i)
             (fold (path_accel (clock i) (particles s ! i)) pts
                (fold (well_accel s (particles s ! i))
                   (map (\<lambda>j. \<lparr> wx = well_x (ws ! j) * 1.5, wy = well_y (ws ! j) * 1.2,
                               wz = well_z (ws ! j) * 0.5, wstrength = well_strength (ws ! j),
                               wvx = hand_vx_at hvs j, wvy = hand_vy_at hvs j \<rparr>)
                      [0..<length ws])
                   (Num 0, Num 0, Num 0))))
          (particles s ! i))
   \<and> (i < count s \<longrightarrow>
      particles (fst (update rnd clock [w0, w1] hvs dt pts (s, k))) ! i =
        finish_particle s rnd dt
          (chaos_accel s rnd (draws_before s rnd clock (world_wells [w0, w1] hvs) dt pts k i)
             (fold (path_accel (clock i) (particles s ! i)) pts
                (fold (well_accel s (particles s ! i))
                   (if sqrt ((well_x w0 * 1.5 - well_x w1 * 1.5)\<^sup>2
                             + (well_y w0 * 1.2 - well_y w1 * 1.2)\<^sup>2) < 0.5
                    then [\<lparr> wx = (well_x w0 * 1.5 + well_x w1 * 1.5) / 2,
                             wy = (well_y w0 * 1.2 + well_y w1 * 1.2) / 2,
                             wz = (well_z w0 * 0.5 + well_z w1 * 0.5) / 2,
                             wstrength = (well_strength w0 + well_strength w1)
                               * (1 + (1 - sqrt ((well_x w0 * 1.5 - well_x w1 * 1.5)\<^sup>2
                                                 + (well_y w0 * 1.2 - well_y w1 * 1.2)\<^sup>2) / 0.5) * 0.5),
                             wvx = (hand_vx_at hvs 0 + hand_vx_at hvs 1) / 2,
                             wvy = (hand_vy_at hvs 0 + hand_vy_at hvs 1) / 2 \<rparr>]
                    else [\<lparr> wx = well_x w0 * 1.5, wy = well_y w0 * 1.2, wz = well_z w0 * 0.5,
                             wstrength = well_strength w0,
                             wvx = hand_vx_at hvs 0, wvy = hand_vy_at hvs 0 \<rparr>,
                          \<lparr> wx = well_x w1 * 1.5, wy = well_y w1 * 1.2, wz = well_z w1 * 0.5,
                             wstrength = well_strength w1,
                             wvx = hand_vx_at hvs 1, wvy = hand_vy_at hvs 1 \<rparr>])
                   (Num 0, Num 0, Num 0))))
          (particles s ! i))
   \<and> (i < count s \<and> px (particles s ! i) = Num a \<and> py (particles s ! i) = Num b
        \<and> pz (particles s ! i) = Num c
        \<and> d = sqrt ((well_x w * 1.5 - a)\<^sup>2 + (well_y w * 1.2 - b)\<^sup>2 + (well_z w * 0.5 - c)\<^sup>2)
        \<and> d \<noteq> 0 \<longrightarrow>
      particles (fst (update rnd clock [w] hvs dt pts (s, k))) ! i =
        finish_particle s rnd dt
          (chaos_accel s rnd (draws_before s rnd clock (world_wells [w] hvs) dt pts k i)
             (fold (path_accel (clock i) (particles s ! i)) pts
                (if d < fieldRadius s then
                   (let force = G s * (if chaosMode s then chaosFactor s * 2 else 1)
                                  * well_strength w
                                  / (max d (minDistance s) * max d (minDistance s));
                        direction = (if attractMode s then 1 else - 1);
                        fx = (well_x w * 1.5 - a) * (1 / d) * force * direction;
                        fy = (well_y w * 1.2 - b) * (1 / d) * force * direction;
                        fz = (well_z w * 0.5 - c) * (1 / d) * force * direction;
                        handSpeed = sqrt (hand_vx_at hvs 0 * hand_vx_at hvs 0
                                          + hand_vy_at hvs 0 * hand_vy_at hvs 0)
                    in if handSpeed > 0.01 \<and> d < 0.5 then
                         (Num (fx + hand_vx_at hvs 0 * (handSpeed * 0.5 * (1 - d / 0.5))),
                          Num (fy + hand_vy_at hvs 0 * (handSpeed * 0.5 * (1 - d / 0.5))),
                          Num fz)
                       else (Num fx, Num fy, Num fz))
                 else (Num 0, Num 0, Num 0))))
          (particles s ! i))
   \<and> (px p = Num a' \<and> py p = Num b' \<and> pz p = Num c'
        \<and> d' = sqrt ((wx W - a')\<^sup>2 + (wy W - b')\<^sup>2 + (wz W - c')\<^sup>2) \<and> d' \<noteq> 0 \<longrightarrow>
      well_accel s p W (ax, ay, az) =
        (if d' < fieldRadius s then
           (let force = G s * (if chaosMode s then chaosFactor s * 2 else 1) * wstrength W
                          / (max d' (minDistance s) * max d' (minDistance s));
                direction = (if attractMode s then 1 else - 1);
                ax1 = nadd ax (Num ((wx W - a') * (1 / d') * force * direction));
                ay1 = nadd ay (Num ((wy W - b') * (1 / d') * force * direction));
                az1 = nadd az (Num ((wz W - c') * (1 / d') * force * direction));
                handSpeed = sqrt (wvx W * wvx W + wvy W * wvy W)
            in if handSpeed > 0.01 \<and> d' < 0.5 then
                 (nadd ax1 (Num (wvx W * (handSpeed * 0.5 * (1 - d' / 0.5)))),
                  nadd ay1 (Num (wvy W * (handSpeed * 0.5 * (1 - d' / 0.5)))),
                  az1)
               else (ax1, ay1, az1))
         else (ax, ay, az)))
   \<and> (i < count s \<and> px (particles s ! i) = Num a \<and> py (particles s ! i) = Num b \<longrightarrow>
      particles (applyExplosion x y st s) ! i =
        (let e = sqrt ((a - x * 1.5)\<^sup>2 + (b - y * 1.2)\<^sup>2)
         in if e < 1.5 \<and> 0.01 < e then
              (particles s ! i)
                \<lparr> vx := nadd (vx (particles s ! i))
                           (Num ((a - x * 1.5) / e * (0.08 * st * (1 - e / 1.5)))),
                  vy := nadd (vy (particles s ! i))
                           (Num ((b - y * 1.2) / e * (0.08 * st * (1 - e / 1.5)))) \<rparr>
            else particles s ! i))
   \<and> (i < count s \<and> px (particles s ! i) = Num a \<and> py (particles s ! i) = Num b \<longrightarrow>
      particles (applyImplosion x y st s) ! i =
        (let e = sqrt ((x * 1.5 - a)\<^sup>2 + (y * 1.2 - b)\<^sup>2)
         in if e < 2 \<and> 0.01 < e then
              (particles s ! i)
                \<lparr> vx := nadd (vx (particles s ! i))
                           (Num ((x * 1.5 - a) / e * (0.06 * st * (1 - e / 2)))),
                  vy := nadd (vy (particles s ! i))
                           (Num ((y * 1.2 - b) / e * (0.06 * st * (1 - e / 2)))) \<rparr>
            else particles s ! i))"
proof (intro conjI impI; (elim conjE)?)
  show "i < count s \<Longrightarrow> length ws \<noteq> 2 \<Longrightarrow>
      particles (fst (update rnd clock ws hvs dt pts (s, k))) ! i =
        finish_particle s rnd dt
          (chaos_accel s rnd (draws_before s rnd clock (world_wells ws hvs) dt pts k i)
             (fold (path_accel (clock i) (particles s ! i)) pts
                (fold (well_accel s (particles s ! i))
                   (map (\<lambda>j. \<lparr> wx = well_x (ws ! j) * 1.5, wy = well_y (ws ! j) * 1.2,
                               wz = well_z (ws ! j) * 0.5, wstrength = well_strength (ws ! j),
                               wvx = hand_vx_at hvs j, wvy = hand_vy_at hvs j \<rparr>)
                      [0..<length ws])
                   (Num 0, Num 0, Num 0))))
          (particles s ! i)"
    by (rule update_wells_other)
qed (rule update_two_wells update_single_well well_accel_cases applyExplosion_nth
       applyImplosion_nth; assumption)+

theorem world_space_coordinates_witness:
  "particles (fst (update (\<lambda>_. 0) (\<lambda>_. 0) [well_at 3 0 0 1] [] 1 [] (axis_physics, 0))) ! 0 =
     finish_particle axis_physics (\<lambda>_. 0) 1
       (chaos_accel axis_physics (\<lambda>_. 0)
          (draws_before axis_physics (\<lambda>_. 0) (\<lambda>_. 0) (world_wells [well_at 3 0 0 1] []) 1 [] 0 0)
          (well_accel axis_physics (particle_at 1 0 0 0 0 0)
             \<lparr> wx = 4.5, wy = 0, wz = 0, wstrength = 1, wvx = 0, wvy = 0 \<rparr>
             (Num 0, Num 0, Num 0)))
       (particle_at 1 0 0 0 0 0)
   \<and> particles (fst (update (\<lambda>_. 0) (\<lambda>_. 0) [well_at 0 0 0 1, well_at 0.4 0 0 1] [] 1 []
                      (axis_physics, 0))) ! 0 =
     finish_particle axis_physics (\<lambda>_. 0) 1
       (chaos_accel axis_physics (\<lambda>_. 0)
          (draws_before axis_physics (\<lambda>_. 0) (\<lambda>_. 0)
             (world_wells [well_at 0 0 0 1, well_at 0.4 0 0 1] []) 1 [] 0 0)
          (well_accel axis_physics (particle_at 1 0 0 0 0 0)
             \<lparr> wx = 0.6, wy = 0, wz = 0, wstrength = 1, wvx = 0, wvy = 0 \<rparr>
             (well_accel axis_physics (particle_at 1 0 0 0 0 0)
                \<lparr> wx = 0, wy = 0, wz = 0, wstrength = 1, wvx = 0, wvy = 0 \<rparr>
                (Num 0, Num 0, Num 0))))
       (particle_at 1 0 0 0 0 0)
   \<and> particles (fst (update (\<lambda>_. 0) (\<lambda>_. 0) [well_at 2 0 0 1] [] 1 [] (axis_physics, 0))) ! 0 =
     finish_particle axis_physics (\<lambda>_. 0) 1
       (chaos_accel axis_physics (\<lambda>_. 0)
          (draws_before axis_physics (\<lambda>_. 0) (\<lambda>_. 0) (world_wells [well_at 2 0 0 1] []) 1 [] 0 0)
          (Num 0.0000375, Num 0, Num 0))
       (particle_at 1 0 0 0 0 0)
   \<and> well_accel axis_physics (particle_at 1 0 0 0 0 0)
        \<lparr> wx = 4.5, wy = 0, wz = 0, wstrength = 1, wvx = 0, wvy = 0 \<rparr> (Num 0, Num 0, Num 0)
       = (Num 0, Num 0, Num 0)
   \<and> particles (applyExplosion 1 0 1 axis_physics) ! 0 = particle_at 1 0 0 (- (4 / 75)) 0 0
   \<and> particles (applyImplosion 1 0 1 axis_physics) ! 0 = particle_at 1 0 0 0.045 0 0"
proof -
  have f: "particles axis_physics ! 0 = particle_at 1 0 0 0 0 0" "0 < count axis_physics"
    "fieldRadius axis_physics = 2.5" "G axis_physics = 0.00015" "\<not> chaosMode axis_physics"
    "minDistance axis_physics = 0.05" "attractMode axis_physics"
    by (simp_all add: axis_physics_def default_physics_def count_def)
  show ?thesis
    using world_space_coordinates [where s = axis_physics and i = 0 and ws = "[well_at 3 0 0 1]"
      and hvs = "[]" and rnd = "\<lambda>_. 0" and clock = "\<lambda>_. 0" and dt = 1 and pts = "[]" and k = 0
      and ?w0.0 = "well_at 0 0 0 1" and ?w1.0 = "well_at 0.4 0 0 1"
      and a = 1 and b = 0 and c = 0 and w = "well_at 2 0 0 1" and d = 2
      and p = "particle_at 1 0 0 0 0 0" and a' = 1 and b' = 0 and c' = 0
      and W = "\<lparr> wx = 4.5, wy = 0, wz = 0, wstrength = 1, wvx = 0, wvy = 0 \<rparr>" and d' = "3.5"
      and ax = "Num 0" and ay = "Num 0" and az = "Num 0" and x = 1 and y = 0 and st = 1]
    by (simp add: f sqrt_values well_at_def particle_at_def hand_vx_at_def hand_vy_at_def Let_def)
qed

section \<open>Explosion impulse\<close>

text \<open>
  Claim C6 as stated: every particle at planar distance \<open>dist\<close> from the impulse point
  receives an increment of magnitude \<open>0.08 * strength * (1 - dist / 1.5)\<close>. On the code
  this fails for an impulse point other than the origin: \<open>applyExplosion(1, 0, 1)\<close> acts
  from \<open>(1.5, 0)\<close>, so the particle at \<open>(2, 0)\<close>, at distance 1 from the point
  \<open>(1, 0)\<close> of the call, is at distance \<open>0.5\<close> from the centre used and receives
  \<open>4/75\<close>, which is \<open>0.0533\<close>, not \<open>0.08 * (1 - 1/1.5) = 0.0267\<close>.
\<close>

theorem explosion_increment_counterexample:
  "sqrt ((2 - 1)\<^sup>2 + (0 - 0)\<^sup>2) = (1::real)
   \<and> particles (applyExplosion 1 0 1 (default_physics [particle_at 2 0 0 0 0 0])) =
       [particle_at 2 0 0 (4 / 75) 0 0]
   \<and> (4 / 75 :: real) \<noteq> 0.08 * 1 * (1 - 1 / 1.5)"
proof -
  have "explode_particle 1 0 1 (particle_at 2 0 0 0 0 0) = particle_at 2 0 0 (4 / 75) 0 0"
    using explode_particle_num [of "particle_at 2 0 0 0 0 0" 2 0 1 0 1]
    by (simp add: particle_at_def sqrt_values)
  then show ?thesis by (simp add: applyExplosion_def default_physics_def)
qed

text \<open>
  Claim C6, amended: a call to \<open>applyExplosion\<close> at \<open>(0, 0)\<close> with strength 1 adds to
  every particle at planar distance 1 from the origin a velocity increment of magnitude
  \<open>0.08 * (1 - 1/1.5)\<close> directed away from the origin in the plane; more generally,
  every particle at planar distance \<open>d\<close> from the rescaled impulse point
  \<open>(1.5 x, 1.2 y)\<close> with \<open>0.01 < d < 1.5\<close> receives the increment
  \<open>m = 0.08 * strength * (1 - d / 1.5)\<close> times the unit vector from that point to the
  particle: its magnitude is \<open>\<bar>m\<bar>\<close>, and \<open>m\<close> is not negative for a strength that is
  not negative. The \<open>z\<close> velocity is unchanged.
\<close>

theorem explosion_increment:
  assumes i: "i < count s"
    and pos: "px (particles s ! i) = Num a" "py (particles s ! i) = Num b"
    and d: "d = sqrt ((a - x * 1.5)\<^sup>2 + (b - y * 1.2)\<^sup>2)"
    and range: "0.01 < d" "d < 1.5"
    and m: "m = 0.08 * strength * (1 - d / 1.5)"
    and p': "p' = particles (applyExplosion x y strength s) ! i"
  shows "vx p' = nadd (vx (particles s ! i)) (Num ((a - x * 1.5) / d * m))
       \<and> vy p' = nadd (vy (particles s ! i)) (Num ((b - y * 1.2) / d * m))
       \<and> vz p' = vz (particles s ! i)
       \<and> sqrt (((a - x * 1.5) / d * m)\<^sup>2 + ((b - y * 1.2) / d * m)\<^sup>2) = \<bar>m\<bar>
       \<and> (0 \<le> strength \<longrightarrow> 0 \<le> m)
       \<and> (x = 0 \<and> y = 0 \<and> strength = 1 \<and> d = 1 \<longrightarrow> m = 0.08 * (1 - 1.0 / 1.5))"
proof -
  have eq: "p' = explode_particle x y strength (particles s ! i)"
    using i by (simp add: p' applyExplosion_def count_def)
  have dpos: "0 < d" using range(1) by simp
  have v: "vx p' = nadd (vx (particles s ! i)) (Num ((a - x * 1.5) / d * m))"
          "vy p' = nadd (vy (particles s ! i)) (Num ((b - y * 1.2) / d * m))"
          "vz p' = vz (particles s ! i)"
    unfolding eq explode_particle_num [OF pos] Let_def d [symmetric] m
    using range by simp_all
  have n: "sqrt (((a - x * 1.5) / d * m)\<^sup>2 + ((b - y * 1.2) / d * m)\<^sup>2) = \<bar>m\<bar>"
    using d dpos by (rule unit_direction)
  have s: "0 \<le> strength \<longrightarrow> 0 \<le> m"
    using range(2) by (simp add: m)
  have o: "x = 0 \<and> y = 0 \<and> strength = 1 \<and> d = 1 \<longrightarrow> m = 0.08 * (1 - 1.0 / 1.5)"
    by (simp add: m)
  from v n s o show ?thesis by blast
qed

theorem explosion_increment_witness:
  "vx (particles (applyExplosion 0 0 1 (default_physics [particle_at 1 0 0 0 0 0])) ! 0)
     = Num (0.08 * (1 - 1.0 / 1.5))
   \<and> vy (particles (applyExplosion 0 0 1 (default_physics [particle_at 1 0 0 0 0 0])) ! 0) = Num 0
   \<and> vz (particles (applyExplosion 0 0 1 (default_physics [particle_at 1 0 0 0 0 0])) ! 0) = Num 0"
  using explosion_increment [where i = 0 and s = "default_physics [particle_at 1 0 0 0 0 0]"
      and a = 1 and b = 0 and x = 0 and y = 0 and d = 1 and strength = 1
      and m = "0.08 * (1 - 1.0 / 1.5)", OF _ _ _ _ _ _ _ refl]
  by (simp add: count_def default_physics_def particle_at_def)

section \<open>Decay without forces\<close>

text \<open>
  Claim C7 as stated: with zero wells, zero path points and chaos mode off, every particle's
  speed is non-increasing over \<open>update\<close> calls. On the code this fails for a particle
  that crosses the boundary: the particle of \<open>edge_physics\<close> has speed \<open>0.001\<close>, leaves
  the disc of radius 4 in the call and is respawned with a fresh random velocity, here of
  speed \<open>0.005\<close>.
\<close>

theorem speed_respawn_counterexample:
  "\<not> chaosMode edge_physics
   \<and> getSpeeds edge_physics = [Num 0.001]
   \<and> getSpeeds (fst (update edge_rnd (\<lambda>_. 0) [] [] 1 [] (edge_physics, 0))) = [Num 0.005]
   \<and> (0.001::real) < 0.005"
proof -
  have a: "speed (particle_at 3.9995 0 0 0.001 0 0) = Num \<bar>0.001\<bar>"
    by (rule speed_axis) (simp_all add: particle_at_def)
  have b: "speed \<lparr> px = Num 0.1, py = Num 0, pz = Num (- 0.05), vx = Num (- 0.005), vy = Num 0,
        vz = Num 0, mass = 0.5, lifetime = 0.001 \<rparr> = Num \<bar>- 0.005\<bar>"
    by (rule speed_axis) simp_all
  have ps: "particles edge_physics = [particle_at 3.9995 0 0 0.001 0 0]"
    by (simp add: edge_physics_def default_physics_def)
  have c: "\<not> chaosMode edge_physics"
    by (simp add: edge_physics_def default_physics_def)
  show ?thesis using a b c by (simp add: getSpeeds_def edge_update ps)
qed

text \<open>
  Claim C7, amended, in the exact arithmetic of the model (the source rounds each stored
  component to single precision): with zero wells, zero path points and chaos mode off, and
  \<open>0 \<le> drag < 1\<close>, an \<open>update\<close> call adds no acceleration. For every particle that is
  not respawned in the call, the speed \<open>v\<close> becomes \<open>min (drag * v) maxVelocity\<close>, which
  is at most \<open>v\<close>, and the velocity is multiplied by \<open>drag\<close> componentwise whenever
  \<open>drag * v\<close> does not exceed \<open>maxVelocity\<close>. So no call increases the speed of a
  particle that it does not respawn. Nothing is stated about the speed after many calls or
  about a floor that it approaches.
\<close>

theorem quiet_decay:
  assumes q: "\<not> chaosMode s" "0 \<le> drag s" "drag s < 1" "0 \<le> maxVelocity s"
    and i: "i < count s"
    and v: "speed (particles s ! i) = Num v"
    and inside: "\<not> escaped (fst (moved s rnd 0 [] 0 dt [] (particles s ! i)))"
  shows
    "speed (particles (fst (update rnd clock [] [] dt [] (s, k))) ! i)
       = Num (min (drag s * v) (maxVelocity s))
     \<and> min (drag s * v) (maxVelocity s) \<le> v
     \<and> (drag s * v \<le> maxVelocity s \<longrightarrow>
          vx (particles (fst (update rnd clock [] [] dt [] (s, k))) ! i)
            = nmul (vx (particles s ! i)) (Num (drag s))
        \<and> vy (particles (fst (update rnd clock [] [] dt [] (s, k))) ! i)
            = nmul (vy (particles s ! i)) (Num (drag s))
        \<and> vz (particles (fst (update rnd clock [] [] dt [] (s, k))) ! i)
            = nmul (vz (particles s ! i)) (Num (drag s)))"
proof (intro conjI impI)
  show "speed (particles (fst (update rnd clock [] [] dt [] (s, k))) ! i)
          = Num (min (drag s * v) (maxVelocity s))"
    using q(1,2,4) i v inside by (rule quiet_update_speed)
  have v0: "0 \<le> v" using v by (rule speed_nonneg)
  have "drag s * v \<le> 1 * v" using q(3) v0 by (intro mult_right_mono) simp_all
  then show "min (drag s * v) (maxVelocity s) \<le> v" by simp
  assume small: "drag s * v \<le> maxVelocity s"
  have ins: "\<not> escaped (fst (moved s rnd
        (draws_before s rnd clock (world_wells [] []) dt [] k i) [] (clock i) dt []
        (particles s ! i)))"
    using inside
      quiet_moved_cong [OF q(1) q(1) refl refl, of rnd
        "draws_before s rnd clock (world_wells [] []) dt [] k i" "clock i" dt "particles s ! i" 0 0]
    by simp
  have w: "world_wells [] [] = []" by (simp add: world_wells_def)
  note vel = quiet_update_particle_velocity [OF q(1,2) v small ins]
  show "vx (particles (fst (update rnd clock [] [] dt [] (s, k))) ! i)
               = nmul (vx (particles s ! i)) (Num (drag s))"
    using vel unfolding update_particles_nth [OF i] w by blast
  show "vy (particles (fst (update rnd clock [] [] dt [] (s, k))) ! i)
               = nmul (vy (particles s ! i)) (Num (drag s))"
    using vel unfolding update_particles_nth [OF i] w by blast
  show "vz (particles (fst (update rnd clock [] [] dt [] (s, k))) ! i)
               = nmul (vz (particles s ! i)) (Num (drag s))"
    using vel unfolding update_particles_nth [OF i] w by blast
qed

theorem quiet_decay_witness:
  "speed (particles (fst (update (\<lambda>_. 0) (\<lambda>_. 0) [] [] 1 [] (drift_physics, 0))) ! 0)
     = Num 0.00995
   \<and> (0.00995::real) \<le> 0.01
   \<and> vx (particles (fst (update (\<lambda>_. 0) (\<lambda>_. 0) [] [] 1 [] (drift_physics, 0))) ! 0)
     = Num 0.00995
   \<and> vy (particles (fst (update (\<lambda>_. 0) (\<lambda>_. 0) [] [] 1 [] (drift_physics, 0))) ! 0) = Num 0
   \<and> vz (particles (fst (update (\<lambda>_. 0) (\<lambda>_. 0) [] [] 1 [] (drift_physics, 0))) ! 0) = Num 0"
proof -
  have q: "\<not> chaosMode drift_physics" "0 \<le> drag drift_physics" "drag drift_physics < 1"
      "0 \<le> maxVelocity drift_physics"
    by (simp_all add: drift_physics_def default_physics_def)
  have i: "0 < count drift_physics"
    by (simp add: count_def drift_physics_def default_physics_def)
  have p: "particles drift_physics ! 0 = particle_at 0 0 0 0.01 0 0"
    by (simp add: drift_physics_def default_physics_def)
  have "speed (particle_at 0 0 0 0.01 0 0) = Num \<bar>0.01\<bar>"
    by (rule speed_axis) (simp_all add: particle_at_def)
  then have v: "speed (particles drift_physics ! 0) = Num 0.01"
    by (simp add: p)
  have inside: "\<not> escaped (fst (moved drift_physics (\<lambda>_. 0) 0 [] 0 1 []
      (particles drift_physics ! 0)))"
    unfolding p by (rule drift_inside)
  have d: "drag drift_physics = 0.995" "maxVelocity drift_physics = 0.08"
    by (simp_all add: drift_physics_def default_physics_def)
  from quiet_decay [OF q i v inside, of "\<lambda>_. 0" 0]
  show ?thesis by (simp add: d p particle_at_def)
qed

section \<open>The clamp on velocities that are numbers\<close>

text \<open>
  What remains of the clamp invariant, in the exact arithmetic of the model: with draws in
  \<open>[0, 1)\<close> and a \<open>maxVelocity\<close> of at least \<open>0.008\<close> (the constructor sets
  \<open>0.08\<close>), every particle leaves the loop body of \<open>update\<close>, for any wells, hand
  velocities, \<open>dt\<close> and path points, with a speed that is either \<open>NaN\<close> or at most
  \<open>maxVelocity\<close>.
\<close>

lemma speed_cases:
  obtains "speed p = NaN" | v where "speed p = Num v"
  by (cases "speed p") auto

lemma respawn_speed:
  assumes rnd: "\<forall>n. 0 \<le> rnd n \<and> rnd n < 1"
  shows "\<exists>v. speed (fst (respawnParticle rnd k p)) = Num v \<and> v \<le> 0.008"
proof -
  let ?u = "(rnd (k + 3) - 0.5) * 0.01"
  let ?w = "(rnd (k + 4) - 0.5) * 0.01"
  have b: "\<And>n. 0 \<le> rnd n" "\<And>n. rnd n < 1" using rnd by simp_all
  have u: "\<bar>?u\<bar> \<le> 0.005" using centred_draw [of "rnd (k + 3)" "0.01"] b by simp
  have w: "\<bar>?w\<bar> \<le> 0.005" using centred_draw [of "rnd (k + 4)" "0.01"] b by simp
  have "?u\<^sup>2 \<le> 0.005\<^sup>2" using u by (simp only: abs_le_square_iff [symmetric] abs_numeral)
  moreover have "?w\<^sup>2 \<le> 0.005\<^sup>2" using w by (simp only: abs_le_square_iff [symmetric] abs_numeral)
  ultimately have "?u\<^sup>2 + ?w\<^sup>2 + 0\<^sup>2 \<le> 0.008\<^sup>2" by (simp add: power2_eq_square)
  then have "sqrt (?u\<^sup>2 + ?w\<^sup>2 + 0\<^sup>2) \<le> 0.008" by (intro real_le_lsqrt) simp_all
  moreover have "speed (fst (respawnParticle rnd k p)) = Num (sqrt (?u\<^sup>2 + ?w\<^sup>2 + 0\<^sup>2))"
    by (rule speed_Num) (simp_all add: respawnParticle_def Let_def)
  ultimately show ?thesis by blast
qed

lemma update_particle_speed_bound:
  assumes rnd: "\<forall>n. 0 \<le> rnd n \<and> rnd n < 1" and m: "0.008 \<le> maxVelocity s"
  shows "speed (fst (update_particle s rnd k wells now dt pts p)) = NaN
       \<or> (\<exists>v. speed (fst (update_particle s rnd k wells now dt pts p)) = Num v
              \<and> v \<le> maxVelocity s)"
proof (cases "escaped (fst (moved s rnd k wells now dt pts p))")
  case True
  from respawn_speed [OF rnd] obtain v where
    "speed (fst (respawnParticle rnd (snd (moved s rnd k wells now dt pts p))
                   (fst (moved s rnd k wells now dt pts p)))) = Num v" "v \<le> 0.008"
    by blast
  then show ?thesis using m by (simp add: update_particle_escaped [OF True])
next
  case False
  obtain acc k1 where a: "acceleration s rnd k wells now pts p = (acc, k1)"
    by (cases "acceleration s rnd k wells now pts p")
  let ?q = "integrate_velocity s dt acc p"
  have sp: "speed (fst (update_particle s rnd k wells now dt pts p)) = speed (clamp_velocity s ?q)"
    by (simp add: update_particle_inside [OF False]) (simp add: moved_def a)
  have m0: "0 \<le> maxVelocity s" using m by simp
  show ?thesis
  proof (cases ?q rule: speed_cases)
    case 1
    then show ?thesis by (simp add: sp clamp_velocity_NaN)
  next
    case (2 v)
    then show ?thesis by (simp add: sp clamp_velocity_speed [OF m0])
  qed
qed

end
